theory Spec2Isabelle
  imports
    Complex_Main
    "HOL-Library.Multiset"
    "HOL-Library.Char_ord"
    "HOL-Library.List_Lexorder"
begin

text \<open>
  The event-derivation pipeline of the financial-news radar (package \<^verbatim>\<open>radar\<close>): the
  tokenizer and the similarity of headlines, the heuristic clusterer, the LLM clusterer
  with its fallback, and the scorer that turns clusters into ranked events. The first
  part embeds the Go functions; the second states what the properties need; the third
  proves them.
\<close>

section \<open>Strings\<close>

text \<open>
  A Go string is a sequence of bytes, here a \<^typ>\<open>string\<close>. Go compares strings byte by
  byte, which is the lexicographic order on \<^typ>\<open>char list\<close>. The functions of package
  \<^verbatim>\<open>strings\<close> are modelled on ASCII text: \<^verbatim>\<open>ToUpper\<close> and \<^verbatim>\<open>ToLower\<close> map the 26
  letters, and white space is the six ASCII white-space bytes.
\<close>

definition isSpace :: "char \<Rightarrow> bool" where
  "isSpace c = (c \<in> {CHR '' '', CHR 0x09, CHR 0x0A, CHR 0x0B, CHR 0x0C, CHR 0x0D})"

definition upperChar :: "char \<Rightarrow> char" where
  "upperChar c =
     (if CHR ''a'' \<le> c \<and> c \<le> CHR ''z'' then char_of (of_char c - (32::nat)) else c)"

definition lowerChar :: "char \<Rightarrow> char" where
  "lowerChar c =
     (if CHR ''A'' \<le> c \<and> c \<le> CHR ''Z'' then char_of (of_char c + (32::nat)) else c)"

definition ToUpper :: "string \<Rightarrow> string" where
  "ToUpper s = map upperChar s"

definition ToLower :: "string \<Rightarrow> string" where
  "ToLower s = map lowerChar s"

definition TrimSpace :: "string \<Rightarrow> string" where
  "TrimSpace s = rev (dropWhile isSpace (rev (dropWhile isSpace s)))"

text \<open>\<^verbatim>\<open>strings.Fields\<close>: the maximal runs of bytes that are not white space.\<close>

fun fields_from :: "string \<Rightarrow> string \<Rightarrow> string list" where
  "fields_from w [] = (if w = [] then [] else [w])"
| "fields_from w (c # cs) =
     (if isSpace c then (if w = [] then fields_from [] cs else w # fields_from [] cs)
      else fields_from (w @ [c]) cs)"

definition Fields :: "string \<Rightarrow> string list" where
  "Fields s = fields_from [] s"

section \<open>Tokenizer and similarity (ingest\_source.go)\<close>

text \<open>The replacer of \<^verbatim>\<open>tokenize\<close> turns each of twelve punctuation bytes into a space.\<close>

definition replacePunct :: "char \<Rightarrow> char" where
  "replacePunct c =
     (if c \<in> {CHR '','', CHR ''.'', CHR '':'', CHR '';'', CHR ''!'', CHR ''?'',
               CHR ''('', CHR '')'', CHR 0x27, CHR 0x22, CHR ''-'', CHR ''_''}
      then CHR '' '' else c)"

definition tokenize :: "string \<Rightarrow> string list" where
  "tokenize s =
     (let normalized = ToLower (map replacePunct s);
          parts = Fields normalized
      in filter (\<lambda>p. \<not> length p \<le> 2) parts)"

text \<open>
  \<^verbatim>\<open>similarityScore\<close> builds two Go maps used as sets, counts the keys of the first that
  are in the second, and divides by the size of the union. A map used as a set is the
  list of its distinct keys. The quotient of the two integers is taken in \<^typ>\<open>real\<close>.
\<close>

definition similarityScore :: "string \<Rightarrow> string \<Rightarrow> real" where
  "similarityScore a b =
     (let tokensA = tokenize a; tokensB = tokenize b in
      if length tokensA = 0 \<or> length tokensB = 0 then 0
      else
        let setA = remdups tokensA; setB = remdups tokensB;
            intersection = int (length (filter (\<lambda>token. token \<in> set setB) setA));
            union = int (length setA) + int (length setB) - intersection
        in if union = 0 then 0 else real_of_int intersection / real_of_int union)"

section \<open>Time\<close>

text \<open>
  A \<^verbatim>\<open>time.Time\<close> is an instant, here the integer number of nanoseconds since the
  epoch; \<^verbatim>\<open>Before\<close> and \<^verbatim>\<open>After\<close> are \<open><\<close> and \<open>>\<close>. A \<^verbatim>\<open>time.Duration\<close> is a
  64-bit count of nanoseconds: \<^verbatim>\<open>Sub\<close> saturates at the largest and smallest duration.
\<close>

type_synonym time = int

definition maxDuration :: int where
  "maxDuration = 2 ^ 63 - 1"

definition minDuration :: int where
  "minDuration = - (2 ^ 63)"

definition Hour :: int where
  "Hour = 3600000000000"

definition Sub :: "time \<Rightarrow> time \<Rightarrow> int" where
  "Sub t u =
     (if t - u > maxDuration then maxDuration
      else if t - u < minDuration then minDuration
      else t - u)"

definition Hours :: "int \<Rightarrow> real" where
  "Hours d = real_of_int (d div Hour) + real_of_int (d mod Hour) / (60 * 60 * 1000000000)"

section \<open>Data model\<close>

text \<open>
  The structs of the source as records. A field name that two structs share keeps its
  name in the first and gets a prefix in the others (\<open>RefSource\<close>, \<open>EvTickers\<close>,
  \<open>ClusterID\<close>, ...).
\<close>

record NewsItem =
  ID :: string
  Headline :: string
  Summary :: string
  Body :: string
  Source :: string
  URL :: string
  Language :: string
  PublishedAt :: time
  Tickers :: "string list"
  Entities :: "string list"
  Country :: string
  Category :: string
  Sentiment :: real
  ImportanceTag :: string

record SourceRef =
  Title :: string
  RefSource :: string
  RefURL :: string
  Published :: time

record TimelineEntry =
  Label :: string
  EntrySource :: string
  EntryURL :: string
  Timestamp :: time

record Draft =
  DraftTitle :: string
  Lead :: string
  Bullets :: "string list"
  Quote :: string

record Event =
  DedupGroup :: string
  EvHeadline :: string
  Hotness :: real
  WhyNow :: string
  EvEntities :: "string list"
  EvTickers :: "string list"
  Sources :: "SourceRef list"
  Timeline :: "TimelineEntry list"
  EvDraft :: Draft

record ClusterAnnotations =
  SummaryEN :: string
  SummaryRU :: string
  WhyNowEN :: string
  WhyNowRU :: string
  AnnEntities :: "string list"
  AnnTickers :: "string list"

record Cluster =
  ClusterID :: string
  Items :: "NewsItem list"
  Primary :: NewsItem
  StartTime :: time
  EndTime :: time
  Annotations :: "ClusterAnnotations option"

record Scorer =
  SourceWeights :: "string \<rightharpoonup> real"
  TagWeights :: "string \<rightharpoonup> real"

text \<open>The zero values \<^verbatim>\<open>Draft{}\<close> and \<^verbatim>\<open>Event{}\<close>.\<close>

definition zeroDraft :: Draft where
  "zeroDraft = \<lparr>DraftTitle = [], Lead = [], Bullets = [], Quote = []\<rparr>"

definition zeroEvent :: Event where
  "zeroEvent = \<lparr>DedupGroup = [], EvHeadline = [], Hotness = 0, WhyNow = [], EvEntities = [],
     EvTickers = [], Sources = [], Timeline = [], EvDraft = zeroDraft\<rparr>"

section \<open>Sorting\<close>

text \<open>
  \<^verbatim>\<open>sort.Slice\<close> sorts in place with the comparison it is given. On a short slice (of
  at most twelve elements) the Go runtime runs its insertion sort, which is the function below:
  element \<open>i\<close> moves left while it is less than its left neighbour. The prefix sorted so
  far is kept reversed, its last element first. On a longer slice the runtime runs a
  quicksort; its result is again a permutation of the input that the comparison orders,
  and only these two facts are used about \<open>sortSlice\<close> in the theorems on arbitrary input.
  \<^verbatim>\<open>sort.Strings\<close> sorts by the total order of strings, so its result is \<^const>\<open>sort\<close>.
\<close>

fun insertLeft :: "('a \<Rightarrow> 'a \<Rightarrow> bool) \<Rightarrow> 'a \<Rightarrow> 'a list \<Rightarrow> 'a list" where
  "insertLeft lt x [] = [x]"
| "insertLeft lt x (y # ys) = (if lt x y then y # insertLeft lt x ys else x # y # ys)"

definition sortSlice :: "('a \<Rightarrow> 'a \<Rightarrow> bool) \<Rightarrow> 'a list \<Rightarrow> 'a list" where
  "sortSlice lt xs = rev (fold (insertLeft lt) xs [])"

section \<open>Bilingual text (localize.go)\<close>

definition bilingual :: "string \<Rightarrow> string \<Rightarrow> string" where
  "bilingual en ru =
     (let en' = TrimSpace en; ru' = TrimSpace ru in
      if en' = [] then ru'
      else if ru' = [] then en'
      else en' @ '' / '' @ ru')"

text \<open>The Russian texts of the source and the ellipsis, in UTF-8.\<close>

definition ruMultiple :: string where
  "ruMultiple =
     [CHR 0xD0, CHR 0xBD, CHR 0xD0, CHR 0xB5, CHR 0xD1, CHR 0x81, CHR 0xD0, CHR 0xBA,
      CHR 0xD0, CHR 0xBE, CHR 0xD0, CHR 0xBB, CHR 0xD1, CHR 0x8C, CHR 0xD0, CHR 0xBA,
      CHR 0xD0, CHR 0xBE, CHR '' '', CHR 0xD0, CHR 0xBF, CHR 0xD0, CHR 0xBE, CHR 0xD0,
      CHR 0xB4, CHR 0xD1, CHR 0x82, CHR 0xD0, CHR 0xB2, CHR 0xD0, CHR 0xB5, CHR 0xD1,
      CHR 0x80, CHR 0xD0, CHR 0xB6, CHR 0xD0, CHR 0xB4, CHR 0xD0, CHR 0xB5, CHR 0xD0,
      CHR 0xBD, CHR 0xD0, CHR 0xB8, CHR 0xD0, CHR 0xB9]"

definition ruBroad :: string where
  "ruBroad =
     [CHR 0xD1, CHR 0x88, CHR 0xD0, CHR 0xB8, CHR 0xD1, CHR 0x80, CHR 0xD0, CHR 0xBE,
      CHR 0xD0, CHR 0xBA, CHR 0xD0, CHR 0xBE, CHR 0xD0, CHR 0xB5, CHR '' '', CHR 0xD0,
      CHR 0xB2, CHR 0xD0, CHR 0xBB, CHR 0xD0, CHR 0xB8, CHR 0xD1, CHR 0x8F, CHR 0xD0,
      CHR 0xBD, CHR 0xD0, CHR 0xB8, CHR 0xD0, CHR 0xB5, CHR '' '', CHR 0xD0, CHR 0xBD,
      CHR 0xD0, CHR 0xB0, CHR '' '', CHR 0xD0, CHR 0xB0, CHR 0xD0, CHR 0xBA, CHR 0xD1,
      CHR 0x82, CHR 0xD0, CHR 0xB8, CHR 0xD0, CHR 0xB2, CHR 0xD1, CHR 0x8B]"

definition ruFast :: string where
  "ruFast =
     [CHR 0xD0, CHR 0xB1, CHR 0xD1, CHR 0x8B, CHR 0xD1, CHR 0x81, CHR 0xD1, CHR 0x82,
      CHR 0xD1, CHR 0x80, CHR 0xD0, CHR 0xBE, CHR '' '', CHR 0xD1, CHR 0x80, CHR 0xD0,
      CHR 0xB0, CHR 0xD0, CHR 0xB7, CHR 0xD0, CHR 0xB2, CHR 0xD0, CHR 0xB8, CHR 0xD0,
      CHR 0xB2, CHR 0xD0, CHR 0xB0, CHR 0xD1, CHR 0x8E, CHR 0xD1, CHR 0x89, CHR 0xD0,
      CHR 0xB8, CHR 0xD0, CHR 0xB9, CHR 0xD1, CHR 0x81, CHR 0xD1, CHR 0x8F, CHR '' '',
      CHR 0xD1, CHR 0x82, CHR 0xD0, CHR 0xB0, CHR 0xD0, CHR 0xB9, CHR 0xD0, CHR 0xBC,
      CHR 0xD0, CHR 0xBB, CHR 0xD0, CHR 0xB0, CHR 0xD0, CHR 0xB9, CHR 0xD0, CHR 0xBD]"

definition ruCredible :: string where
  "ruCredible =
     [CHR 0xD0, CHR 0xB8, CHR 0xD1, CHR 0x81, CHR 0xD1, CHR 0x82, CHR 0xD0, CHR 0xBE,
      CHR 0xD1, CHR 0x87, CHR 0xD0, CHR 0xBD, CHR 0xD0, CHR 0xB8, CHR 0xD0, CHR 0xBA,
      CHR 0xD0, CHR 0xB8, CHR '' '', CHR 0xD1, CHR 0x81, CHR '' '', CHR 0xD0, CHR 0xB2,
      CHR 0xD1, CHR 0x8B, CHR 0xD1, CHR 0x81, CHR 0xD0, CHR 0xBE, CHR 0xD0, CHR 0xBA,
      CHR 0xD0, CHR 0xB8, CHR 0xD0, CHR 0xBC, CHR '' '', CHR 0xD0, CHR 0xB4, CHR 0xD0,
      CHR 0xBE, CHR 0xD0, CHR 0xB2, CHR 0xD0, CHR 0xB5, CHR 0xD1, CHR 0x80, CHR 0xD0,
      CHR 0xB8, CHR 0xD0, CHR 0xB5, CHR 0xD0, CHR 0xBC]"

definition ruFresh :: string where
  "ruFresh =
     [CHR 0xD1, CHR 0x81, CHR 0xD0, CHR 0xB2, CHR 0xD0, CHR 0xB5, CHR 0xD0, CHR 0xB6,
      CHR 0xD0, CHR 0xB5, CHR 0xD0, CHR 0xB5, CHR '' '', CHR 0xD1, CHR 0x80, CHR 0xD0,
      CHR 0xB0, CHR 0xD0, CHR 0xB7, CHR 0xD0, CHR 0xB2, CHR 0xD0, CHR 0xB8, CHR 0xD1,
      CHR 0x82, CHR 0xD0, CHR 0xB8, CHR 0xD0, CHR 0xB5, CHR '' '', CHR 0xD1, CHR 0x81,
      CHR 0xD0, CHR 0xBE, CHR 0xD0, CHR 0xB1, CHR 0xD1, CHR 0x8B, CHR 0xD1, CHR 0x82,
      CHR 0xD0, CHR 0xB8, CHR 0xD0, CHR 0xB9]"

definition ruImpacts :: string where
  "ruImpacts =
     [CHR 0xD0, CHR 0x92, CHR 0xD0, CHR 0xBB, CHR 0xD0, CHR 0xB8, CHR 0xD1, CHR 0x8F,
      CHR 0xD0, CHR 0xBD, CHR 0xD0, CHR 0xB8, CHR 0xD0, CHR 0xB5]"

definition ruTickers :: string where
  "ruTickers =
     [CHR 0xD0, CHR 0x9A, CHR 0xD0, CHR 0xBB, CHR 0xD1, CHR 0x8E, CHR 0xD1, CHR 0x87,
      CHR 0xD0, CHR 0xB5, CHR 0xD0, CHR 0xB2, CHR 0xD1, CHR 0x8B, CHR 0xD0, CHR 0xB5,
      CHR '' '', CHR 0xD1, CHR 0x82, CHR 0xD0, CHR 0xB8, CHR 0xD0, CHR 0xBA, CHR 0xD0,
      CHR 0xB5, CHR 0xD1, CHR 0x80, CHR 0xD1, CHR 0x8B]"

definition ruWhyNow :: string where
  "ruWhyNow =
     [CHR 0xD0, CHR 0x9F, CHR 0xD0, CHR 0xBE, CHR 0xD1, CHR 0x87, CHR 0xD0, CHR 0xB5,
      CHR 0xD0, CHR 0xBC, CHR 0xD1, CHR 0x83, CHR '' '', CHR 0xD1, CHR 0x81, CHR 0xD0,
      CHR 0xB5, CHR 0xD0, CHR 0xB9, CHR 0xD1, CHR 0x87, CHR 0xD0, CHR 0xB0, CHR 0xD1,
      CHR 0x81]"

definition ruUpdate :: string where
  "ruUpdate =
     [CHR 0xD0, CHR 0x9E, CHR 0xD0, CHR 0xB1, CHR 0xD0, CHR 0xBD, CHR 0xD0, CHR 0xBE,
      CHR 0xD0, CHR 0xB2, CHR 0xD0, CHR 0xBB, CHR 0xD0, CHR 0xB5, CHR 0xD0, CHR 0xBD,
      CHR 0xD0, CHR 0xB8, CHR 0xD0, CHR 0xB5]"

definition ruInitial :: string where
  "ruInitial =
     [CHR 0xD0, CHR 0xA1, CHR 0xD1, CHR 0x82, CHR 0xD0, CHR 0xB0, CHR 0xD1, CHR 0x80,
      CHR 0xD1, CHR 0x82]"

definition ruLatest :: string where
  "ruLatest =
     [CHR 0xD0, CHR 0xA4, CHR 0xD0, CHR 0xB8, CHR 0xD0, CHR 0xBD, CHR 0xD0, CHR 0xB0,
      CHR 0xD0, CHR 0xBB]"

definition ellipsis :: string where
  "ellipsis =
     [CHR 0xE2, CHR 0x80, CHR 0xA6]"

text \<open>\<^verbatim>\<open>strings.Join\<close>, and \<^verbatim>\<open>%d\<close> of a number that is not negative.\<close>

fun Join :: "string list \<Rightarrow> string \<Rightarrow> string" where
  "Join [] sep = []"
| "Join [x] sep = x"
| "Join (x # y # ys) sep = x @ sep @ Join (y # ys) sep"

fun decimal :: "nat \<Rightarrow> string" where
  "decimal n =
     (if n < 10 then [char_of (48 + n)] else decimal (n div 10) @ [char_of (48 + n mod 10)])"

section \<open>Draft (selectQuote, buildDraft)\<close>

text \<open>The separator of the quote, \<^verbatim>\<open>" \<close>em dash\<^verbatim>\<open> "\<close>, in UTF-8.\<close>

definition quoteSep :: string where
  "quoteSep = [CHR '' '', CHR 0xE2, CHR 0x80, CHR 0x94, CHR '' '']"

text \<open>
  A slice of source references is a header, the address of its backing array and its
  length, and the arrays live in a store. \<^verbatim>\<open>selectQuote\<close> receives a copy of the header
  of the caller's \<^verbatim>\<open>sources\<close>; the copy names the same array, so the \<^verbatim>\<open>sort.Slice\<close> in
  \<^verbatim>\<open>selectQuote\<close> reorders what the caller's slice shows.
\<close>

type_synonym store = "nat \<Rightarrow> SourceRef list"

record slice =
  Array :: nat
  Len :: nat

definition readSlice :: "store \<Rightarrow> slice \<Rightarrow> SourceRef list" where
  "readSlice st sl = take (Len sl) (st (Array sl))"

text \<open>\<^verbatim>\<open>sort.Slice\<close> on a slice in the store: the elements the slice shows are permuted.\<close>

definition sortInPlace :: "(SourceRef \<Rightarrow> SourceRef \<Rightarrow> bool) \<Rightarrow> slice \<Rightarrow> store \<Rightarrow> store" where
  "sortInPlace lt sl st =
     st(Array sl := sortSlice lt (take (Len sl) (st (Array sl))) @ drop (Len sl) (st (Array sl)))"

definition selectQuote :: "slice \<Rightarrow> store \<Rightarrow> string \<times> store" where
  "selectQuote sources st =
     (if Len sources = 0 then ([], st)
      else
        let st' = sortInPlace (\<lambda>a b. Published a < Published b) sources st;
            source = hd (readSlice st' sources)
        in (RefSource source @ quoteSep @ Title source, st'))"

text \<open>
  \<^verbatim>\<open>truncate\<close> counts and cuts runes. In UTF-8 text a rune is a byte that is not a
  continuation byte (\<open>0x80\<close> to \<open>0xBF\<close>) with the continuation bytes that follow it.
\<close>

definition isContinuation :: "char \<Rightarrow> bool" where
  "isContinuation c = (CHR 0x80 \<le> c \<and> c \<le> CHR 0xBF)"

definition runeCount :: "string \<Rightarrow> nat" where
  "runeCount s = length (filter (\<lambda>c. \<not> isContinuation c) s)"

fun takeRunes :: "nat \<Rightarrow> string \<Rightarrow> string" where
  "takeRunes n [] = []"
| "takeRunes n (c # cs) =
     (if isContinuation c then c # takeRunes n cs
      else (case n of 0 \<Rightarrow> [] | Suc m \<Rightarrow> c # takeRunes m cs))"

definition truncateText :: "string \<Rightarrow> nat \<Rightarrow> string" where
  "truncateText text limit =
     (let text' = TrimSpace text in
      if runeCount text' \<le> limit then text'
      else TrimSpace (takeRunes limit text') @ ellipsis)"

definition buildDraft ::
  "Cluster \<Rightarrow> string list \<Rightarrow> string list \<Rightarrow> slice \<Rightarrow> string \<Rightarrow> store \<Rightarrow>
     Draft \<times> store" where
  "buildDraft cluster entities tickers sources whyNow st =
     (let primary = Primary cluster;
          bullets0 = (if length entities > 0
                      then [bilingual ''Impacts'' ruImpacts @ '': '' @ Join entities '', '']
                      else []);
          bullets1 = (if length tickers > 0
                      then bullets0 @
                        [bilingual ''Tickers in focus'' ruTickers @ '': '' @ Join tickers '', '']
                      else bullets0);
          bullets = bullets1 @ [bilingual ''Why now'' ruWhyNow @ '': '' @ whyNow];
          (quote, st') = selectQuote sources st;
          lead0 = Summary primary;
          lead1 = (if TrimSpace lead0 = [] then truncateText (Body primary) 240 else lead0);
          lead = (case Annotations cluster of
                    None \<Rightarrow> lead1
                  | Some annotations \<Rightarrow>
                      (let llmLead = bilingual (SummaryEN annotations) (SummaryRU annotations)
                       in if TrimSpace llmLead \<noteq> [] then llmLead else lead1))
      in (\<lparr>DraftTitle = Headline primary, Lead = lead, Bullets = bullets, Quote = quote\<rparr>,
          st'))"

section \<open>Timeline\<close>

text \<open>
  \<^verbatim>\<open>buildTimeline\<close> sorts a copy of the items and labels the entries: the first one
  \<open>Initial\<close>, the last one \<open>Latest\<close>, and, when there are at least three, the ones between
  \<open>Update i\<close>.
\<close>

definition timelineLabel :: "nat \<Rightarrow> nat \<Rightarrow> string" where
  "timelineLabel n idx =
     (let label = (if idx = 0 then bilingual ''Initial'' ruInitial
                   else if int idx = int n - 1 then bilingual ''Latest'' ruLatest
                   else bilingual ''Update'' ruUpdate)
      in if n \<ge> 3 \<and> 1 \<le> idx \<and> int idx < int n - 1
         then bilingual (''Update '' @ decimal idx) (ruUpdate @ '' '' @ decimal idx)
         else label)"

definition buildTimeline :: "Cluster \<Rightarrow> TimelineEntry list" where
  "buildTimeline cluster =
     (if length (Items cluster) = 0 then []
      else
        let items = sortSlice (\<lambda>a b. PublishedAt a < PublishedAt b) (Items cluster)
        in map (\<lambda>(idx, item).
              \<lparr>Label = timelineLabel (length items) idx, EntrySource = Source item,
               EntryURL = URL item, Timestamp = PublishedAt item\<rparr>)
             (enumerate 0 items))"

section \<open>Scorer (scoring.go)\<close>

text \<open>
  A \<^verbatim>\<open>float64\<close> is modelled by a real number: the arithmetic of the scorer is exact here,
  and no score is infinite or not a number. The code rounds after every operation, so
  its hotness can differ from the one of the model in the third decimal where the
  weighted sum is at a rounding boundary: for one item of the source \<open>Financial Times\<close>
  with the tag \<open>guidance_cut\<close> and the default weights the sum is 0.5935 here and
  0.5934999999999999 in the code, which rounds it to 0.593. The theorems on the hotness
  therefore state its order and bounds that hold with a margin, never its value.
\<close>

definition normalizeEntity :: "string \<Rightarrow> string" where
  "normalizeEntity entity = TrimSpace (ToLower entity)"

definition clamp01 :: "real \<Rightarrow> real" where
  "clamp01 v = (if v < 0 then 0 else if v > 1 then 1 else v)"

text \<open>\<^verbatim>\<open>math.Round\<close> rounds half away from zero.\<close>

definition Round :: "real \<Rightarrow> real" where
  "Round x = (if x < 0 then - real_of_int \<lfloor>- x + 1 / 2\<rfloor> else real_of_int \<lfloor>x + 1 / 2\<rfloor>)"

definition roundTo :: "real \<Rightarrow> nat \<Rightarrow> real" where
  "roundTo v prec = (let p = 10 ^ prec in Round (v * p) / p)"

text \<open>Reading a Go map of floats at a key it does not hold gives 0.\<close>

definition weightAt :: "(string \<rightharpoonup> real) \<Rightarrow> string \<Rightarrow> real" where
  "weightAt weights k = (case weights k of None \<Rightarrow> 0 | Some v \<Rightarrow> v)"

definition weightedSum :: "(string \<rightharpoonup> real) \<Rightarrow> real" where
  "weightedSum weights =
     clamp01 (weightAt weights ''coverage'' * 0.18 +
       weightAt weights ''velocity'' * 0.18 +
       weightAt weights ''credibility'' * 0.15 +
       weightAt weights ''sentiment'' * 0.12 +
       weightAt weights ''tag'' * 0.18 +
       weightAt weights ''breadth'' * 0.12 +
       weightAt weights ''novelty'' * 0.07)"

definition averageSourceWeight :: "Scorer \<Rightarrow> NewsItem list \<Rightarrow> real" where
  "averageSourceWeight s items =
     (if length items = 0 then 0.3
      else
        let total = fold (\<lambda>item total.
              case SourceWeights s (ToLower (Source item)) of
                Some w \<Rightarrow> total + w
              | None \<Rightarrow> total + 0.5) items 0
        in min 1 (total / real (length items)))"

definition tagWeight :: "Scorer \<Rightarrow> NewsItem list \<Rightarrow> real" where
  "tagWeight s items =
     (let best = fold (\<lambda>item best.
            case TagWeights s (ImportanceTag item) of
              Some w \<Rightarrow> if w > best then w else best
            | None \<Rightarrow> best) items 0
      in if best = 0 then 0.45 else best)"

definition composeWhyNow :: "real \<Rightarrow> real \<Rightarrow> real \<Rightarrow> real \<Rightarrow> string" where
  "composeWhyNow coverage reach velocity sourceScore =
     (let notes0 = (if coverage > 1 then [bilingual ''multiple confirmations'' ruMultiple] else []);
          notes1 = (if reach \<ge> 2 then notes0 @ [bilingual ''broad asset impact'' ruBroad]
                    else notes0);
          notes2 = (if velocity > 0.8 then notes1 @ [bilingual ''fast-moving timeline'' ruFast]
                    else notes1);
          notes3 = (if sourceScore > 0.7
                    then notes2 @ [bilingual ''high-credibility sources'' ruCredible]
                    else notes2);
          notes = (if length notes3 = 0 then notes3 @ [bilingual ''fresh development'' ruFresh]
                   else notes3)
      in Join notes ''; '')"

text \<open>
  The variables the loop of \<^verbatim>\<open>buildEvent\<close> updates, one item at a time. \<^verbatim>\<open>sources\<close> is
  made with the capacity it will reach, so \<^verbatim>\<open>append\<close> never moves it to another array:
  the loop fills the one array, at address 0 of the store, that \<^verbatim>\<open>buildDraft\<close> is given
  and that \<^verbatim>\<open>Event.Sources\<close> is read from when \<^verbatim>\<open>buildDraft\<close> has returned.
\<close>

record scan =
  sources :: "SourceRef list"
  tickers :: "string list"
  entities :: "string list"
  totalSentiment :: real
  negativeCount :: nat
  earliest :: time
  latest :: time
  tickerSet :: "string set"
  entitySet :: "string set"

definition addTicker :: "string \<Rightarrow> scan \<Rightarrow> scan" where
  "addTicker ticker st =
     (let t = ToUpper ticker in
      if t \<notin> tickerSet st
      then st\<lparr>tickerSet := insert t (tickerSet st), tickers := tickers st @ [t]\<rparr>
      else st)"

definition addEntity :: "string \<Rightarrow> scan \<Rightarrow> scan" where
  "addEntity entity st =
     (let en = normalizeEntity entity in
      if en \<notin> entitySet st
      then st\<lparr>entitySet := insert en (entitySet st), entities := entities st @ [entity]\<rparr>
      else st)"

definition scanItem :: "NewsItem \<Rightarrow> scan \<Rightarrow> scan" where
  "scanItem item st0 =
     (let st1 = st0\<lparr>sources := sources st0 @
            [\<lparr>Title = Headline item, RefSource = Source item, RefURL = URL item,
              Published = PublishedAt item\<rparr>]\<rparr>;
          st2 = fold addTicker (Tickers item) st1;
          st3 = fold addEntity (Entities item) st2;
          st4 = st3\<lparr>totalSentiment := totalSentiment st3 + \<bar>Sentiment item\<bar>\<rparr>;
          st5 = (if Sentiment item < 0 then st4\<lparr>negativeCount := negativeCount st4 + 1\<rparr> else st4);
          st6 = (if PublishedAt item < earliest st5 then st5\<lparr>earliest := PublishedAt item\<rparr> else st5)
      in if PublishedAt item > latest st6 then st6\<lparr>latest := PublishedAt item\<rparr> else st6)"

definition scanStart :: "NewsItem \<Rightarrow> scan" where
  "scanStart first = \<lparr>sources = [], tickers = [], entities = [], totalSentiment = 0,
     negativeCount = 0, earliest = PublishedAt first, latest = PublishedAt first,
     tickerSet = {}, entitySet = {}\<rparr>"

definition buildEvent :: "Scorer \<Rightarrow> Cluster \<Rightarrow> Event" where
  "buildEvent s cluster =
     (let items = Items cluster in
      case items of
        [] \<Rightarrow> zeroEvent
      | first # _ \<Rightarrow>
          (let st = fold scanItem items (scanStart first);
               tickers = sort (tickers st);
               entities = sort (entities st);
               coverage = real (length items);
               reach = real (length tickers);
               novelty = (if coverage > 1 then 1 - min 0.6 ((coverage - 1) * 0.12) else 1);
               window = Sub (latest st) (earliest st);
               velocity = (if window > 0 then max 0.2 (min 1 (6 / (Hours window + 1))) else 1);
               sourceScore = averageSourceWeight s items;
               sentimentScore0 = min 1 (totalSentiment st / real (length items));
               sentimentScore =
                 (if negativeCount st > 0 \<and> negativeCount st = length items
                  then min 1 (sentimentScore0 + 0.15) else sentimentScore0);
               tagScore = tagWeight s items;
               breadthScore = min 1 (reach / 4);
               extentScore = min 1 (real (length entities) / 6);
               hotness = weightedSum
                 [''coverage'' \<mapsto> min 1 (coverage / 4),
                  ''velocity'' \<mapsto> velocity,
                  ''credibility'' \<mapsto> sourceScore,
                  ''sentiment'' \<mapsto> sentimentScore,
                  ''tag'' \<mapsto> tagScore,
                  ''breadth'' \<mapsto> 0.6 * breadthScore + 0.4 * extentScore,
                  ''novelty'' \<mapsto> novelty];
               whyNow0 = composeWhyNow coverage reach velocity sourceScore;
               whyNow =
                 (case Annotations cluster of
                    None \<Rightarrow> whyNow0
                  | Some annotations \<Rightarrow>
                      (let llmWhy = bilingual (WhyNowEN annotations) (WhyNowRU annotations)
                       in if TrimSpace llmWhy \<noteq> []
                          then (if TrimSpace whyNow0 \<noteq> [] then llmWhy @ '' | '' @ whyNow0
                                else llmWhy)
                          else whyNow0));
               sourcesSlice = \<lparr>Array = 0, Len = length (sources st)\<rparr>;
               (draft, heap) = buildDraft cluster entities tickers sourcesSlice whyNow
                 ((\<lambda>a. [])(0 := sources st));
               timeline = buildTimeline cluster
           in \<lparr>DedupGroup = ClusterID cluster,
               EvHeadline = Headline (Primary cluster),
               Hotness = roundTo hotness 3,
               WhyNow = whyNow,
               EvEntities = entities,
               EvTickers = tickers,
               Sources = readSlice heap sourcesSlice,
               Timeline = timeline,
               EvDraft = draft\<rparr>))"

definition ScoreClusters :: "Scorer \<Rightarrow> Cluster list \<Rightarrow> Event list" where
  "ScoreClusters s clusters =
     (if length clusters = 0 then []
      else
        let events = filter (\<lambda>event. \<not> Hotness event \<le> 0) (map (buildEvent s) clusters)
        in sortSlice (\<lambda>a b. Hotness a > Hotness b) events)"

section \<open>Default scorer (decode.go)\<close>

text \<open>\<^verbatim>\<open>DefaultScorer\<close>, with the weights of the source.\<close>

definition DefaultScorer :: Scorer where
  "DefaultScorer = \<lparr>
     SourceWeights =
       [''bloomberg'' \<mapsto> 0.9,
        ''reuters'' \<mapsto> 0.88,
        ''financial times'' \<mapsto> 0.85,
        ''central bank'' \<mapsto> 0.92,
        ''company call'' \<mapsto> 0.75,
        ''marketwatch'' \<mapsto> 0.7,
        ''finchat'' \<mapsto> 0.45],
     TagWeights =
       [''guidance_cut'' \<mapsto> 0.95,
        ''supply_chain'' \<mapsto> 0.85,
        ''macro_policy'' \<mapsto> 0.8,
        ''flows'' \<mapsto> 0.6,
        ''management_comment'' \<mapsto> 0.55,
        ''positioning'' \<mapsto> 0.58]\<rparr>"

section \<open>Errors\<close>

text \<open>
  The errors of the clusterers. An error made elsewhere (by the chat client, by the JSON
  package, by a fallback engine) is \<open>Foreign\<close> with its message. \<open>FallbackFailed\<close> wraps the
  error of the fallback and the original cause, as \<^verbatim>\<open>buildWithFallback\<close> does.
\<close>

datatype error =
    Foreign string
  | Misconfigured
  | PromptMarshal error
  | MissingChoices
  | MissingPayload
  | DecodeFailed error
  | ContainsNoClusters
  | ReturnedNoClusters
  | FallbackFailed error error

section \<open>Heuristic clusterer (ingest\_source.go)\<close>

record HeuristicClusterer =
  TimeWindow :: int
  SimilarityThreshold :: real
  MaxClusterSize :: int

definition NewHeuristicClusterer :: "int \<Rightarrow> real \<Rightarrow> HeuristicClusterer" where
  "NewHeuristicClusterer timeWindow threshold =
     \<lparr>TimeWindow = (if timeWindow = 0 then 6 * Hour else timeWindow),
      SimilarityThreshold = (if threshold \<le> 0 \<or> threshold > 1 then 0.45 else threshold),
      MaxClusterSize = 12\<rparr>"

text \<open>\<^verbatim>\<open>Time.Add\<close> is addition; the window never takes an instant out of the range of times.\<close>

definition withinWindow :: "time \<Rightarrow> time \<Rightarrow> time \<Rightarrow> int \<Rightarrow> bool" where
  "withinWindow start finish ts window =
     (if ts < start + (- window) then False
      else if ts > finish + window then False
      else True)"

definition sharesToken :: "string list \<Rightarrow> string list \<Rightarrow> bool" where
  "sharesToken a b =
     (if length a = 0 \<or> length b = 0 then False
      else list_ex (\<lambda>v. ToUpper v \<in> set (map ToUpper a)) b)"

definition areRelated :: "NewsItem \<Rightarrow> NewsItem \<Rightarrow> real \<Rightarrow> bool" where
  "areRelated a b threshold =
     (if sharesToken (Tickers a) (Tickers b) \<or> sharesToken (Entities a) (Entities b) then True
      else similarityScore (Headline a) (Headline b) \<ge> threshold)"

definition clusterContainsRelated :: "Cluster \<Rightarrow> NewsItem \<Rightarrow> real \<Rightarrow> bool" where
  "clusterContainsRelated cluster candidate threshold =
     list_ex (\<lambda>existing. areRelated existing candidate threshold) (Items cluster)"

text \<open>What the loop does to the cluster an item is assigned to.\<close>

definition absorb :: "Cluster \<Rightarrow> NewsItem \<Rightarrow> Cluster" where
  "absorb cluster item =
     cluster\<lparr>Items := Items cluster @ [item],
       StartTime := (if PublishedAt item < StartTime cluster then PublishedAt item
                     else StartTime cluster),
       EndTime := (if PublishedAt item > EndTime cluster then PublishedAt item
                   else EndTime cluster),
       Primary := (if PublishedAt item < PublishedAt (Primary cluster) then item
                   else Primary cluster)\<rparr>"

text \<open>
  The inner loop over the clusters made so far: the clusters after the item has joined
  the first one that takes it, or \<open>None\<close> when none does (\<^verbatim>\<open>assigned\<close> stays false).
\<close>

fun assign :: "HeuristicClusterer \<Rightarrow> NewsItem \<Rightarrow> Cluster list \<Rightarrow> Cluster list option" where
  "assign c item [] = None"
| "assign c item (cluster # rest) =
     (if int (length (Items cluster)) \<ge> MaxClusterSize c
      then map_option ((#) cluster) (assign c item rest)
      else if \<not> withinWindow (StartTime cluster) (EndTime cluster) (PublishedAt item) (TimeWindow c)
      then map_option ((#) cluster) (assign c item rest)
      else if clusterContainsRelated cluster item (SimilarityThreshold c)
      then Some (absorb cluster item # rest)
      else map_option ((#) cluster) (assign c item rest))"

text \<open>
  One round of the outer loop. \<open>uuid k\<close> is the identifier that the \<open>k\<close>-th call of
  \<^verbatim>\<open>uuid.NewString\<close> returns; there is one call for each new cluster.
\<close>

definition place :: "HeuristicClusterer \<Rightarrow> (nat \<Rightarrow> string) \<Rightarrow> NewsItem \<Rightarrow> Cluster list \<Rightarrow> Cluster list" where
  "place c uuid item clusters =
     (case assign c item clusters of
        Some clusters' \<Rightarrow> clusters'
      | None \<Rightarrow> clusters @
          [\<lparr>ClusterID = uuid (length clusters), Items = [item], Primary = item,
            StartTime = PublishedAt item, EndTime = PublishedAt item, Annotations = None\<rparr>])"

definition sortByPublished :: "NewsItem list \<Rightarrow> NewsItem list" where
  "sortByPublished items = sortSlice (\<lambda>a b. PublishedAt a < PublishedAt b) items"

definition HeuristicClusterer_BuildClusters ::
  "HeuristicClusterer \<Rightarrow> (nat \<Rightarrow> string) \<Rightarrow> NewsItem list \<Rightarrow> error + Cluster list" where
  "HeuristicClusterer_BuildClusters c uuid items =
     (if length items = 0 then Inr []
      else Inr (fold (place c uuid) (sortByPublished items) []))"

section \<open>LLM clusterer (llm\_clusterer.go)\<close>

record Message =
  Role :: string
  Content :: string

record ChatCompletionRequest =
  ReqModel :: string
  Messages :: "Message list"
  ReqTemperature :: real
  ReqMaxTokens :: int
  TopP :: real

text \<open>
  \<^verbatim>\<open>llm.ChatClient\<close>: a completion request gives an error or the contents of the choices
  of the response. The client acts on a world \<open>'w\<close> outside the program (the upstream
  service), which it may change.
\<close>

type_synonym 'w ChatClient = "ChatCompletionRequest \<Rightarrow> 'w \<Rightarrow> (error + string list) \<times> 'w"

text \<open>\<^verbatim>\<open>ClusterEngine\<close>, the type of the fallback.\<close>

type_synonym ClusterEngine = "NewsItem list \<Rightarrow> error + Cluster list"

record 'w LLMClusterer =
  Client :: "'w ChatClient option"
  Model :: string
  Temperature :: real
  MaxTokens :: int
  MaxItems :: int
  Fallback :: "ClusterEngine option"

text \<open>The items as the prompt shows them, and a cluster as the response declares it.\<close>

record promptItem =
  pID :: string
  pHeadline :: string
  pSummary :: string
  pBody :: string
  pSource :: string
  pURL :: string
  pLanguage :: string
  pPublishedAt :: time
  pTickers :: "string list"
  pEntities :: "string list"

record decodedCluster =
  dID :: string
  NewsIDs :: "string list"
  PrimaryNewsID :: string
  dSummaryEN :: string
  dSummaryRU :: string
  dWhyNowEN :: string
  dWhyNowRU :: string
  dEntities :: "string list"
  dTickers :: "string list"

text \<open>
  Package \<^verbatim>\<open>encoding/json\<close> is a parameter: \<open>MarshalIndent\<close> encodes the payload of the
  prompt, \<open>Unmarshal\<close> decodes the clusters of a response or fails.
\<close>

record JSON =
  MarshalIndent :: "promptItem list \<Rightarrow> error + string"
  Unmarshal :: "string \<Rightarrow> error + decodedCluster list"

definition buildWithFallback :: "'w LLMClusterer \<Rightarrow> NewsItem list \<Rightarrow> error \<Rightarrow> error + Cluster list" where
  "buildWithFallback c items cause =
     (case Fallback c of
        Some fallback \<Rightarrow>
          (case fallback items of
             Inl fbErr \<Rightarrow> Inl (FallbackFailed fbErr cause)
           | Inr clusters \<Rightarrow> Inr clusters)
      | None \<Rightarrow> Inl cause)"

definition systemContent :: string where
  \<open>systemContent = ''You are RADAR, an expert financial analyst who groups related financial news into distinct market events. Respond STRICTLY with valid JSON.''\<close>

definition userInstructions :: string where
  \<open>userInstructions =
       ''Group the following financial news into coherent events.\<newline>'' @
       ''Rules:\<newline>'' @
       ''- Use a stable identifier for each event (e.g. "event_1").\<newline>'' @
       ''- Include every news id in exactly one cluster.\<newline>'' @
       ''- Prefer grouping when the news refers to the same company, instrument, regulator, or macro theme even across languages.\<newline>'' @
       ''- Provide both English and Russian short summaries for each cluster.\<newline>'' @
       ''- Provide a short justification (English + Russian) why the event matters now.\<newline>'' @
       ''- Infer entities and tickers from the statements when missing.\<newline>'' @
       ''\<newline>'' @
       ''Respond with JSON using this schema:\<newline>'' @
       ''{\<newline>'' @
       ''  "clusters": [\<newline>'' @
       ''    {\<newline>'' @
       ''      "id": "event_1",\<newline>'' @
       ''      "news_ids": ["id_a", "id_b"],\<newline>'' @
       ''      "primary_news_id": "id_a",\<newline>'' @
       ''      "summary_en": "...",\<newline>'' @
       ''      "summary_ru": "...",\<newline>'' @
       ''      "why_now_en": "...",\<newline>'' @
       ''      "why_now_ru": "...",\<newline>'' @
       ''      "entities": ["..."],\<newline>'' @
       ''      "tickers": ["..."]\<newline>'' @
       ''    }\<newline>'' @
       ''  ]\<newline>'' @
       ''}\<newline>'' @
       ''\<newline>'' @
       ''News payload:\<newline>''\<close>

definition buildPrompt :: "JSON \<Rightarrow> NewsItem list \<Rightarrow> error + Message list" where
  "buildPrompt json items =
     (let news = map (\<lambda>item. \<lparr>pID = ID item, pHeadline = Headline item, pSummary = Summary item,
            pBody = Body item, pSource = Source item, pURL = URL item, pLanguage = Language item,
            pPublishedAt = PublishedAt item, pTickers = Tickers item,
            pEntities = Entities item\<rparr>) items
      in case MarshalIndent json news of
           Inl err \<Rightarrow> Inl (PromptMarshal err)
         | Inr newsJSON \<Rightarrow>
             Inr [\<lparr>Role = ''system'', Content = systemContent\<rparr>,
                  \<lparr>Role = ''user'', Content = userInstructions @ newsJSON\<rparr>])"

text \<open>\<^verbatim>\<open>strings.Index\<close> and \<^verbatim>\<open>strings.LastIndex\<close> of a byte, \<open>-1\<close> when it is absent.\<close>

definition Index :: "string \<Rightarrow> char \<Rightarrow> int" where
  "Index s c = (if c \<in> set s then int (length (takeWhile (\<lambda>x. x \<noteq> c) s)) else - 1)"

definition LastIndex :: "string \<Rightarrow> char \<Rightarrow> int" where
  "LastIndex s c =
     (if c \<in> set s then int (length s) - 1 - int (length (takeWhile (\<lambda>x. x \<noteq> c) (rev s)))
      else - 1)"

definition extractJSON :: "string \<Rightarrow> string" where
  "extractJSON content =
     (let start = Index content (CHR 0x7B);
          finish = LastIndex content (CHR 0x7D)
      in if start = - 1 \<or> finish = - 1 \<or> finish \<le> start then []
         else take (nat (finish + 1 - start)) (drop (nat start) content))"

text \<open>
  \<^verbatim>\<open>collectStrings\<close> gathers the trimmed non-empty values in a map used as a set and
  sorts its keys.
\<close>

definition collectStrings :: "NewsItem list \<Rightarrow> (NewsItem \<Rightarrow> string list) \<Rightarrow> string list" where
  "collectStrings items selector =
     sort (remdups (filter (\<lambda>val. val \<noteq> []) (map TrimSpace (concat (map selector items)))))"

definition preferID :: "string \<Rightarrow> string \<Rightarrow> string" where
  "preferID candidate fallback =
     (let candidate' = TrimSpace candidate in if candidate' \<noteq> [] then candidate' else fallback)"

text \<open>
  One round of the loop of \<^verbatim>\<open>parseResponse\<close> over the declared clusters: \<open>None\<close> when no
  declared identifier is known (\<^verbatim>\<open>continue\<close>). The primary is taken from \<^verbatim>\<open>clusterItems[0]\<close>
  before the items are sorted.
\<close>

definition parseCluster :: "(string \<rightharpoonup> NewsItem) \<Rightarrow> decodedCluster \<Rightarrow> Cluster option" where
  "parseCluster itemByID cluster =
     (let clusterItems = List.map_filter itemByID (NewsIDs cluster) in
      case clusterItems of
        [] \<Rightarrow> None
      | first # _ \<Rightarrow>
          (let primary0 =
                 (if PrimaryNewsID cluster \<noteq> []
                  then (case itemByID (PrimaryNewsID cluster) of
                          Some candidate \<Rightarrow> candidate
                        | None \<Rightarrow> first)
                  else first);
               sorted = sortByPublished clusterItems;
               start = PublishedAt (hd sorted);
               finish = PublishedAt (last sorted);
               entities = (if length (dEntities cluster) = 0
                           then collectStrings sorted Entities else dEntities cluster);
               tickers = (if length (dTickers cluster) = 0
                          then collectStrings sorted Tickers else dTickers cluster);
               annotation = \<lparr>SummaryEN = dSummaryEN cluster, SummaryRU = dSummaryRU cluster,
                 WhyNowEN = dWhyNowEN cluster, WhyNowRU = dWhyNowRU cluster,
                 AnnEntities = entities, AnnTickers = tickers\<rparr>;
               primary = (if SummaryEN annotation \<noteq> [] \<and> Summary primary0 = []
                          then primary0\<lparr>Summary := SummaryEN annotation\<rparr> else primary0)
           in Some \<lparr>ClusterID = preferID (dID cluster) (ID primary), Items = sorted,
                Primary = primary, StartTime = start, EndTime = finish,
                Annotations = Some annotation\<rparr>))"

definition parseResponse :: "JSON \<Rightarrow> string \<Rightarrow> NewsItem list \<Rightarrow> error + Cluster list" where
  "parseResponse json content items =
     (let jsonPayload = extractJSON content in
      if jsonPayload = [] then Inl MissingPayload
      else
        case Unmarshal json jsonPayload of
          Inl err \<Rightarrow> Inl (DecodeFailed err)
        | Inr decoded \<Rightarrow>
            if length decoded = 0 then Inl ContainsNoClusters
            else
              let itemByID = fold (\<lambda>item m. m(ID item \<mapsto> item)) items Map.empty
              in Inr (List.map_filter (parseCluster itemByID) decoded))"

definition limitItems :: "'w LLMClusterer \<Rightarrow> NewsItem list \<Rightarrow> NewsItem list" where
  "limitItems c items =
     (if MaxItems c > 0 \<and> int (length items) > MaxItems c then take (nat (MaxItems c)) items
      else items)"

definition chatRequest :: "'w LLMClusterer \<Rightarrow> Message list \<Rightarrow> ChatCompletionRequest" where
  "chatRequest c payload =
     \<lparr>ReqModel = Model c, Messages = payload, ReqTemperature = Temperature c,
      ReqMaxTokens = MaxTokens c, TopP = 0.9\<rparr>"

definition LLMClusterer_BuildClusters ::
  "JSON \<Rightarrow> 'w LLMClusterer \<Rightarrow> NewsItem list \<Rightarrow> 'w \<Rightarrow> (error + Cluster list) \<times> 'w" where
  "LLMClusterer_BuildClusters json c items w =
     (if length items = 0 then (Inr [], w)
      else
        case Client c of
          None \<Rightarrow> (buildWithFallback c items Misconfigured, w)
        | Some client \<Rightarrow>
            if Model c = [] then (buildWithFallback c items Misconfigured, w)
            else
              let limited = limitItems c items;
                  sorted = sortByPublished limited
              in case buildPrompt json sorted of
                   Inl err \<Rightarrow> (buildWithFallback c items err, w)
                 | Inr payload \<Rightarrow>
                     (case client (chatRequest c payload) w of
                        (Inl err, w') \<Rightarrow> (buildWithFallback c items err, w')
                      | (Inr choices, w') \<Rightarrow>
                          if length choices = 0
                          then (buildWithFallback c items MissingChoices, w')
                          else
                            (case parseResponse json (hd choices) items of
                               Inl err \<Rightarrow> (buildWithFallback c items err, w')
                             | Inr clusters \<Rightarrow>
                                 if length clusters = 0
                                 then (buildWithFallback c items ReturnedNoClusters, w')
                                 else (Inr clusters, w'))))"

section \<open>A chat client that counts its calls\<close>

text \<open>
  The fake client of \<^verbatim>\<open>llm_clusterer_test.go\<close> has a field \<^verbatim>\<open>calls\<close> that the test of the
  signature cache reads. \<open>counted\<close> wraps a client in the same way: the world is the
  number of calls made so far, next to the world of the client it wraps.
\<close>

definition counted :: "'w ChatClient \<Rightarrow> (nat \<times> 'w) ChatClient" where
  "counted client req nw =
     (case nw of (n, w) \<Rightarrow> (case client req w of (r, w') \<Rightarrow> (r, (Suc n, w'))))"

section \<open>Notions used to state the properties\<close>

text \<open>The source reference \<^verbatim>\<open>buildEvent\<close> makes of an item.\<close>

definition refOf :: "NewsItem \<Rightarrow> SourceRef" where
  "refOf item = \<lparr>Title = Headline item, RefSource = Source item, RefURL = URL item,
     Published = PublishedAt item\<rparr>"

text \<open>
  What the loop of \<^verbatim>\<open>buildEvent\<close> keeps true of the entities, \<open>seen\<close> being the entities
  of the items read so far, in order: the set of keys is the set of the normalised kept
  entities, no two kept entities have one key, every key seen is kept, and a kept
  entity is the first one seen with its key.
\<close>

definition entityInv :: "string list \<Rightarrow> scan \<Rightarrow> bool" where
  "entityInv seen st \<longleftrightarrow>
     entitySet st = normalizeEntity ` set (entities st) \<and>
     distinct (map normalizeEntity (entities st)) \<and>
     normalizeEntity ` set (entities st) = normalizeEntity ` set seen \<and>
     (\<forall>e\<in>set (entities st). find (\<lambda>x. normalizeEntity x = normalizeEntity e) seen = Some e)"

text \<open>
  The entity list as the specification words it: the members' entities, deduplicated
  without regard to case, each in its original case, in first-seen order.
\<close>

fun dedupBy :: "(string \<Rightarrow> string) \<Rightarrow> string list \<Rightarrow> string list \<Rightarrow> string list" where
  "dedupBy key seen [] = []"
| "dedupBy key seen (x # xs) =
     (if key x \<in> set seen then dedupBy key seen xs else x # dedupBy key (key x # seen) xs)"

definition spec_entities :: "NewsItem list \<Rightarrow> string list" where
  "spec_entities items = dedupBy ToLower [] (concat (map Entities items))"

section \<open>The sub-metrics of the hotness in closed form\<close>

text \<open>
  The metrics of section 4.7 of the specification, as functions of the items of a
  cluster. \<open>coverage\<close> is the number of items, \<open>reach\<close> the number of distinct tickers in
  upper case.
\<close>

definition coverage :: "NewsItem list \<Rightarrow> real" where
  "coverage items = real (length items)"

definition reach :: "NewsItem list \<Rightarrow> real" where
  "reach items = real (card (ToUpper ` set (concat (map Tickers items))))"

definition novelty :: "NewsItem list \<Rightarrow> real" where
  "novelty items =
     (if coverage items \<le> 1 then 1 else 1 - min 0.6 ((coverage items - 1) * 0.12))"

text \<open>The hours between the earliest and the latest item, with no bound on the span.\<close>

definition spanHours :: "NewsItem list \<Rightarrow> real" where
  "spanHours items =
     real_of_int (Max (set (map PublishedAt items)) - Min (set (map PublishedAt items))) /
       3600000000000"

definition velocity :: "NewsItem list \<Rightarrow> real" where
  "velocity items =
     (if spanHours items = 0 then 1 else max 0.2 (min 1 (6 / (spanHours items + 1))))"

definition sentimentScore :: "NewsItem list \<Rightarrow> real" where
  "sentimentScore items =
     (let m = min 1 (sum_list (map (\<lambda>item. \<bar>Sentiment item\<bar>) items) / real (length items))
      in if list_all (\<lambda>item. Sentiment item < 0) items then min 1 (m + 0.15) else m)"

definition breadthScore :: "NewsItem list \<Rightarrow> real" where
  "breadthScore items = min 1 (reach items / 4)"

definition extentScore :: "NewsItem list \<Rightarrow> real" where
  "extentScore items =
     min 1 (real (card (normalizeEntity ` set (concat (map Entities items)))) / 6)"

text \<open>The weight of the source of an item (0.5 when the source is not configured).\<close>

definition sourceWeightOf :: "Scorer \<Rightarrow> NewsItem \<Rightarrow> real" where
  "sourceWeightOf s item =
     (case SourceWeights s (ToLower (Source item)) of Some w \<Rightarrow> w | None \<Rightarrow> 0.5)"

definition meanSourceWeight :: "Scorer \<Rightarrow> NewsItem list \<Rightarrow> real" where
  "meanSourceWeight s items = sum_list (map (sourceWeightOf s) items) / real (length items)"

text \<open>The configured weights of the importance tags of the items.\<close>

definition matchedTagWeights :: "Scorer \<Rightarrow> NewsItem list \<Rightarrow> real list" where
  "matchedTagWeights s items = List.map_filter (\<lambda>item. TagWeights s (ImportanceTag item)) items"

text \<open>
  The source score is the mean capped at 1 (the code does not raise a negative mean to
  0), and the tag score is the largest configured weight above 0, 0.45 if there is
  none.
\<close>

definition sourceScore :: "Scorer \<Rightarrow> NewsItem list \<Rightarrow> real" where
  "sourceScore s items = (if items = [] then 0.3 else min 1 (meanSourceWeight s items))"

definition tagScore :: "Scorer \<Rightarrow> NewsItem list \<Rightarrow> real" where
  "tagScore s items =
     (let ws = filter (\<lambda>w. 0 < w) (matchedTagWeights s items)
      in if ws = [] then 0.45 else Max (set ws))"

text \<open>The weighted sum, clamped and rounded to three decimals, in exact arithmetic.\<close>

definition hotnessOf ::
  "real \<Rightarrow> real \<Rightarrow> real \<Rightarrow> real \<Rightarrow> real \<Rightarrow> real \<Rightarrow> real \<Rightarrow> real \<Rightarrow> real" where
  "hotnessOf cov vel src sen tag br ex nov =
     roundTo (clamp01 (0.18 * min 1 (cov / 4) + 0.18 * vel + 0.15 * src + 0.12 * sen +
       0.18 * tag + 0.12 * (0.6 * br + 0.4 * ex) + 0.07 * nov)) 3"

section \<open>Failure of the LLM path\<close>

text \<open>
  What the chat client returned makes the LLM path fail: an error, no choice, a first
  choice that does not parse, or one that gives no cluster. \<open>llmCause\<close> is the cause that
  \<^verbatim>\<open>BuildClusters\<close> hands to \<^verbatim>\<open>buildWithFallback\<close> then.
\<close>

definition llmFailed :: "JSON \<Rightarrow> NewsItem list \<Rightarrow> error + string list \<Rightarrow> bool" where
  "llmFailed json items resp =
     (case resp of
        Inl err \<Rightarrow> True
      | Inr choices \<Rightarrow>
          (case choices of
             [] \<Rightarrow> True
           | content # _ \<Rightarrow>
               (case parseResponse json content items of
                  Inl err \<Rightarrow> True
                | Inr clusters \<Rightarrow> clusters = [])))"

definition llmCause :: "JSON \<Rightarrow> NewsItem list \<Rightarrow> error + string list \<Rightarrow> error" where
  "llmCause json items resp =
     (case resp of
        Inl err \<Rightarrow> err
      | Inr choices \<Rightarrow>
          (case choices of
             [] \<Rightarrow> MissingChoices
           | content # _ \<Rightarrow>
               (case parseResponse json content items of
                  Inl err \<Rightarrow> err
                | Inr clusters \<Rightarrow> ReturnedNoClusters)))"

section \<open>Example inputs\<close>

text \<open>Two items of one story, the second published before the first.\<close>

definition exLate :: NewsItem where
  "exLate = \<lparr>ID = ''n1'', Headline = ''Factory fire hits supplier'', Summary = [], Body = [],
     Source = ''Reuters'', URL = ''https://example.com/a'', Language = ''en'',
     PublishedAt = 9 * Hour, Tickers = [''cma'', ''XYZ''], Entities = [''Supplier'', ''Company A''],
     Country = [], Category = [], Sentiment = - 0.5, ImportanceTag = ''supply_chain''\<rparr>"

definition exEarly :: NewsItem where
  "exEarly = \<lparr>ID = ''n2'', Headline = ''Company A cuts guidance'', Summary = [], Body = [],
     Source = ''Bloomberg'', URL = ''https://example.com/b'', Language = ''en'',
     PublishedAt = 8 * Hour, Tickers = [''CMA''], Entities = [''company a''],
     Country = [], Category = [], Sentiment = 0.2, ImportanceTag = ''guidance_cut''\<rparr>"

definition exCluster :: Cluster where
  "exCluster = \<lparr>ClusterID = ''b'', Items = [exLate, exEarly], Primary = exLate,
     StartTime = 8 * Hour, EndTime = 9 * Hour, Annotations = None\<rparr>"

text \<open>The same cluster under an identifier that sorts first.\<close>

definition exClusterA :: Cluster where
  "exClusterA = exCluster\<lparr>ClusterID := ''a''\<rparr>"

text \<open>
  A scorer that gives the source \<open>rumours\<close> a negative weight and the tag \<open>gossip\<close> the
  weight 0, and an item with this source and this tag.
\<close>

definition exNegScorer :: Scorer where
  "exNegScorer = \<lparr>SourceWeights = (SourceWeights DefaultScorer)(''rumours'' \<mapsto> - 1),
     TagWeights = (TagWeights DefaultScorer)(''gossip'' \<mapsto> 0)\<rparr>"

definition exRumour :: NewsItem where
  "exRumour = \<lparr>ID = ''n3'', Headline = ''Takeover talk'', Summary = [], Body = [],
     Source = ''Rumours'', URL = ''https://example.com/c'', Language = ''en'',
     PublishedAt = 10 * Hour, Tickers = [], Entities = [],
     Country = [], Category = [], Sentiment = 0, ImportanceTag = ''gossip''\<rparr>"

definition exRumourCluster :: Cluster where
  "exRumourCluster = \<lparr>ClusterID = ''r'', Items = [exRumour], Primary = exRumour,
     StartTime = 10 * Hour, EndTime = 10 * Hour, Annotations = None\<rparr>"

text \<open>
  A response that declares one cluster of the items \<open>n1\<close> and \<open>n2\<close>, in this order and
  with no primary, and a JSON package that decodes every payload to it.
\<close>

definition exDecoded :: decodedCluster where
  "exDecoded = \<lparr>dID = ''event_supply'', NewsIDs = [''n1'', ''n2''], PrimaryNewsID = [],
     dSummaryEN = [], dSummaryRU = [], dWhyNowEN = [], dWhyNowRU = [],
     dEntities = [''Company A''], dTickers = [''CMA'']\<rparr>"

definition exJSON :: JSON where
  "exJSON = \<lparr>MarshalIndent = (\<lambda>news. Inr ''[]''), Unmarshal = (\<lambda>payload. Inr [exDecoded])\<rparr>"

text \<open>A client that answers with one choice, and one that fails.\<close>

definition exClient :: "unit ChatClient" where
  "exClient req w = (Inr [''{}''], w)"

definition exFailingClient :: "unit ChatClient" where
  "exFailingClient req w = (Inl (Foreign ''boom''), w)"

definition exUuid :: "nat \<Rightarrow> string" where
  "exUuid k = replicate (Suc k) (CHR ''c'')"

definition exFallback :: ClusterEngine where
  "exFallback = HeuristicClusterer_BuildClusters (NewHeuristicClusterer (6 * Hour) 0.45) exUuid"

definition exLLM :: "unit LLMClusterer" where
  "exLLM = \<lparr>Client = Some exFailingClient, Model = ''gemini-2.5-flash'', Temperature = 0.2,
     MaxTokens = 512, MaxItems = 10, Fallback = Some exFallback\<rparr>"

text \<open>The clusterer of the cache test: the client answers, and it counts its calls.\<close>

definition exCounting :: "(nat \<times> unit) LLMClusterer" where
  "exCounting = \<lparr>Client = Some (counted exClient), Model = ''gemini-2.5-flash'',
     Temperature = 0.2, MaxTokens = 512, MaxItems = 10, Fallback = Some exFallback\<rparr>"

section \<open>Properties of the similarity\<close>

lemma count_common_card:
  "length (filter (\<lambda>t. t \<in> set (remdups ys)) (remdups xs)) = card (set xs \<inter> set ys)"
proof -
  have "distinct (filter (\<lambda>t. t \<in> set (remdups ys)) (remdups xs))"
    by simp
  then have "length (filter (\<lambda>t. t \<in> set (remdups ys)) (remdups xs)) =
      card (set (filter (\<lambda>t. t \<in> set (remdups ys)) (remdups xs)))"
    by (simp only: distinct_card)
  also have "set (filter (\<lambda>t. t \<in> set (remdups ys)) (remdups xs)) = set xs \<inter> set ys"
    by auto
  finally show ?thesis .
qed

lemma similarityScore_comm: "similarityScore a b = similarityScore b a"
proof -
  have "card (set (tokenize a) \<inter> set (tokenize b)) = card (set (tokenize b) \<inter> set (tokenize a))"
    by (simp add: Int_commute)
  then show ?thesis
    unfolding similarityScore_def Let_def count_common_card
    by (simp add: add.commute disj_commute)
qed

lemma similarityScore_self:
  assumes "tokenize a \<noteq> []"
  shows "similarityScore a a = 1"
proof -
  have n: "length (remdups (tokenize a)) \<noteq> 0"
    using assms by simp
  have "length (filter (\<lambda>t. t \<in> set (remdups (tokenize a))) (remdups (tokenize a)))
      = length (remdups (tokenize a))"
    by simp
  then show ?thesis
    unfolding similarityScore_def Let_def using assms n by simp
qed

text \<open>
  C8. For every string whose token list is not empty the similarity of the string with
  itself is 1, and the similarity of two strings does not depend on their order.
\<close>

theorem similarity_reflexive_symmetric:
  "(tokenize a \<noteq> [] \<longrightarrow> similarityScore a a = 1) \<and>
   similarityScore a b = similarityScore b a"
  using similarityScore_self similarityScore_comm by blast

theorem similarity_reflexive_symmetric_witness:
  "tokenize ''Fed cuts rates'' \<noteq> [] \<and>
   similarityScore ''Fed cuts rates'' ''Fed cuts rates'' = 1 \<and>
   similarityScore ''Fed cuts rates'' ''Fed holds'' = similarityScore ''Fed holds'' ''Fed cuts rates''"
proof -
  have h: "tokenize ''Fed cuts rates'' \<noteq> []"
    by code_simp
  show ?thesis
    using h similarity_reflexive_symmetric [of "''Fed cuts rates''" "''Fed holds''"] by blast
qed

section \<open>Properties of sortSlice\<close>

lemma mset_insertLeft: "mset (insertLeft lt x ys) = add_mset x (mset ys)"
  by (induction ys) auto

lemma mset_fold_insertLeft: "mset (fold (insertLeft lt) xs acc) = mset xs + mset acc"
  by (induction xs arbitrary: acc) (auto simp: mset_insertLeft)

lemma mset_sortSlice: "mset (sortSlice lt xs) = mset xs"
  by (simp add: sortSlice_def mset_fold_insertLeft)

lemma set_sortSlice: "set (sortSlice lt xs) = set xs"
  using mset_sortSlice [of lt xs] by (rule mset_eq_setD)

lemma length_sortSlice: "length (sortSlice lt xs) = length xs"
  using mset_sortSlice [of lt xs] by (rule mset_eq_length)

lemma set_insertLeft: "set (insertLeft lt x ys) = insert x (set ys)"
  using mset_insertLeft [of lt x ys] by (metis mset_eq_setD set_mset_add_mset_insert set_mset_mset)

text \<open>
  When the comparison is \<open><\<close> on a key, the reversed prefix stays in descending order of
  the key, so the result is in ascending order.
\<close>

lemma sorted_insertLeft:
  fixes key :: "'a \<Rightarrow> 'k::linorder"
  assumes lt: "\<And>a b. lt a b \<longleftrightarrow> key a < key b"
    and srt: "sorted_wrt (\<lambda>a b. key b \<le> key a) ys"
  shows "sorted_wrt (\<lambda>a b. key b \<le> key a) (insertLeft lt x ys)"
  using srt
proof (induction ys)
  case Nil
  then show ?case by simp
next
  case (Cons y ys)
  show ?case
  proof (cases "lt x y")
    case True
    then have "key x \<le> key y" using lt by auto
    moreover have "\<forall>z\<in>set ys. key z \<le> key y" using Cons.prems by simp
    ultimately show ?thesis
      using True Cons by (auto simp: set_insertLeft)
  next
    case False
    then have "key y \<le> key x" using lt by auto
    then show ?thesis
      using False Cons.prems by auto
  qed
qed

lemma sorted_fold_insertLeft:
  fixes key :: "'a \<Rightarrow> 'k::linorder"
  assumes lt: "\<And>a b. lt a b \<longleftrightarrow> key a < key b"
    and srt: "sorted_wrt (\<lambda>a b. key b \<le> key a) acc"
  shows "sorted_wrt (\<lambda>a b. key b \<le> key a) (fold (insertLeft lt) xs acc)"
  using srt
  by (induction xs arbitrary: acc) (simp_all add: sorted_insertLeft [OF lt])

lemma sorted_sortSlice:
  fixes key :: "'a \<Rightarrow> 'k::linorder"
  assumes lt: "\<And>a b. lt a b \<longleftrightarrow> key a < key b"
  shows "sorted_wrt (\<lambda>a b. key a \<le> key b) (sortSlice lt xs)"
proof -
  have "sorted_wrt (\<lambda>a b. key b \<le> key a) (fold (insertLeft lt) xs [])"
    by (rule sorted_fold_insertLeft [OF lt]) simp
  then show ?thesis
    by (simp add: sortSlice_def sorted_wrt_rev)
qed

section \<open>The loop of buildEvent: what each step leaves alone\<close>

lemma addTicker_frame [simp]:
  "sources (addTicker t st) = sources st \<and> entities (addTicker t st) = entities st \<and>
   entitySet (addTicker t st) = entitySet st \<and> totalSentiment (addTicker t st) = totalSentiment st \<and>
   negativeCount (addTicker t st) = negativeCount st \<and> earliest (addTicker t st) = earliest st \<and>
   latest (addTicker t st) = latest st"
  by (simp add: addTicker_def Let_def)

lemma addEntity_frame [simp]:
  "sources (addEntity e st) = sources st \<and> tickers (addEntity e st) = tickers st \<and>
   tickerSet (addEntity e st) = tickerSet st \<and> totalSentiment (addEntity e st) = totalSentiment st \<and>
   negativeCount (addEntity e st) = negativeCount st \<and> earliest (addEntity e st) = earliest st \<and>
   latest (addEntity e st) = latest st"
  by (simp add: addEntity_def Let_def)

lemma fold_addTicker_frame [simp]:
  "sources (fold addTicker ts st) = sources st \<and> entities (fold addTicker ts st) = entities st \<and>
   entitySet (fold addTicker ts st) = entitySet st \<and>
   totalSentiment (fold addTicker ts st) = totalSentiment st \<and>
   negativeCount (fold addTicker ts st) = negativeCount st \<and>
   earliest (fold addTicker ts st) = earliest st \<and> latest (fold addTicker ts st) = latest st"
  by (induction ts arbitrary: st) simp_all

lemma fold_addEntity_frame [simp]:
  "sources (fold addEntity es st) = sources st \<and> tickers (fold addEntity es st) = tickers st \<and>
   tickerSet (fold addEntity es st) = tickerSet st \<and>
   totalSentiment (fold addEntity es st) = totalSentiment st \<and>
   negativeCount (fold addEntity es st) = negativeCount st \<and>
   earliest (fold addEntity es st) = earliest st \<and> latest (fold addEntity es st) = latest st"
  by (induction es arbitrary: st) simp_all

section \<open>Source references and the quote\<close>

lemma fold_scanItem_sources:
  "sources (fold scanItem items st) = sources st @ map refOf items"
  by (induction items arbitrary: st) (simp_all add: scanItem_def Let_def refOf_def)

lemma buildEvent_Sources:
  assumes "Items c \<noteq> []"
  shows "Sources (buildEvent s c) =
    sortSlice (\<lambda>a b. Published a < Published b) (map refOf (Items c))"
proof -
  obtain first rest where it: "Items c = first # rest"
    using assms by (cases "Items c") auto
  have "sources (fold scanItem (Items c) (scanStart first)) = map refOf (Items c)"
    by (simp add: fold_scanItem_sources scanStart_def)
  then show ?thesis
    using it by (simp add: buildEvent_def Let_def buildDraft_def selectQuote_def sortInPlace_def
      readSlice_def length_sortSlice case_prod_beta)
qed

lemma buildEvent_Quote:
  assumes "Items c \<noteq> []"
  shows "Quote (EvDraft (buildEvent s c)) =
    RefSource (hd (Sources (buildEvent s c))) @ quoteSep @ Title (hd (Sources (buildEvent s c)))"
proof -
  obtain first rest where it: "Items c = first # rest"
    using assms by (cases "Items c") auto
  have "sources (fold scanItem (Items c) (scanStart first)) = map refOf (Items c)"
    by (simp add: fold_scanItem_sources scanStart_def)
  then show ?thesis
    using it by (simp add: buildEvent_def Let_def buildDraft_def selectQuote_def sortInPlace_def
      readSlice_def length_sortSlice case_prod_beta)
qed

lemma ScoreClusters_from_cluster:
  assumes "ev \<in> set (ScoreClusters s clusters)"
  shows "\<exists>c\<in>set clusters. Items c \<noteq> [] \<and> ev = buildEvent s c"
proof -
  from assms have ev: "ev \<in> set (map (buildEvent s) clusters)" and hot: "\<not> Hotness ev \<le> 0"
    by (auto simp: ScoreClusters_def Let_def set_sortSlice split: if_splits)
  then obtain c where c: "c \<in> set clusters" "ev = buildEvent s c"
    by auto
  have "Items c \<noteq> []"
  proof
    assume "Items c = []"
    then have "buildEvent s c = zeroEvent" by (simp add: buildEvent_def)
    then show False using hot c by (simp add: zeroEvent_def)
  qed
  then show ?thesis using c by blast
qed

lemma buildEvent_Sources_sorted:
  assumes "Items c \<noteq> []"
  shows "sorted (map Published (Sources (buildEvent s c)))"
proof -
  have "sorted_wrt (\<lambda>a b. Published a \<le> Published b)
      (sortSlice (\<lambda>a b. Published a < Published b) (map refOf (Items c)))"
    by (rule sorted_sortSlice) simp
  then show ?thesis
    by (simp add: buildEvent_Sources [OF assms] sorted_map)
qed

lemma sorted_hd_least:
  fixes f :: "'a \<Rightarrow> 'k::linorder"
  assumes "sorted (map f xs)" and "r \<in> set xs"
  shows "f (hd xs) \<le> f r"
  using assms by (cases xs) auto

text \<open>
  C10. Every event that \<^verbatim>\<open>ScoreClusters\<close> returns is built from a cluster with items, and
  its source references are those of the cluster's items put in ascending order of
  publication, whatever the order of the items: the first reference is an earliest
  one, and the quote of the draft is made of its source and its title.
\<close>

theorem event_sources_sorted_by_published:
  "\<forall>ev\<in>set (ScoreClusters s clusters). \<exists>c\<in>set clusters.
     Items c \<noteq> [] \<and> ev = buildEvent s c \<and>
     mset (Sources ev) = mset (map refOf (Items c)) \<and>
     sorted (map Published (Sources ev)) \<and>
     Sources ev \<noteq> [] \<and>
     (\<forall>r\<in>set (Sources ev). Published (hd (Sources ev)) \<le> Published r) \<and>
     Quote (EvDraft ev) = RefSource (hd (Sources ev)) @ quoteSep @ Title (hd (Sources ev))"
proof
  fix ev
  assume "ev \<in> set (ScoreClusters s clusters)"
  then obtain c where c: "c \<in> set clusters" "Items c \<noteq> []" "ev = buildEvent s c"
    using ScoreClusters_from_cluster by blast
  have m: "mset (Sources ev) = mset (map refOf (Items c))"
    using c by (simp add: buildEvent_Sources mset_sortSlice)
  have s: "sorted (map Published (Sources ev))"
    using c buildEvent_Sources_sorted by simp
  have n: "Sources ev \<noteq> []"
    using m c(2) by (metis map_is_Nil_conv mset_zero_iff)
  have l: "\<forall>r\<in>set (Sources ev). Published (hd (Sources ev)) \<le> Published r"
    using sorted_hd_least [OF s] by simp
  have q: "Quote (EvDraft ev) = RefSource (hd (Sources ev)) @ quoteSep @ Title (hd (Sources ev))"
    using c buildEvent_Quote by simp
  show "\<exists>c\<in>set clusters.
     Items c \<noteq> [] \<and> ev = buildEvent s c \<and>
     mset (Sources ev) = mset (map refOf (Items c)) \<and>
     sorted (map Published (Sources ev)) \<and>
     Sources ev \<noteq> [] \<and>
     (\<forall>r\<in>set (Sources ev). Published (hd (Sources ev)) \<le> Published r) \<and>
     Quote (EvDraft ev) = RefSource (hd (Sources ev)) @ quoteSep @ Title (hd (Sources ev))"
    using c m s n l q by blast
qed

text \<open>
  On the example cluster, whose items are in descending order of publication, the
  references come out in ascending order and the quote is taken from the earlier item.
\<close>

theorem event_sources_sorted_by_published_witness:
  "ScoreClusters DefaultScorer [exCluster] \<noteq> [] \<and>
   map PublishedAt (Items exCluster) = [9 * Hour, 8 * Hour] \<and>
   sorted (map Published (Sources (hd (ScoreClusters DefaultScorer [exCluster])))) \<and>
   Quote (EvDraft (hd (ScoreClusters DefaultScorer [exCluster]))) =
     RefSource (hd (Sources (hd (ScoreClusters DefaultScorer [exCluster])))) @ quoteSep @
     Title (hd (Sources (hd (ScoreClusters DefaultScorer [exCluster])))) \<and>
   RefSource (hd (Sources (hd (ScoreClusters DefaultScorer [exCluster])))) = ''Bloomberg''"
proof -
  have ne: "ScoreClusters DefaultScorer [exCluster] \<noteq> []"
    by code_simp
  then have "hd (ScoreClusters DefaultScorer [exCluster]) \<in> set (ScoreClusters DefaultScorer [exCluster])"
    by simp
  then have "sorted (map Published (Sources (hd (ScoreClusters DefaultScorer [exCluster])))) \<and>
    Quote (EvDraft (hd (ScoreClusters DefaultScorer [exCluster]))) =
     RefSource (hd (Sources (hd (ScoreClusters DefaultScorer [exCluster])))) @ quoteSep @
     Title (hd (Sources (hd (ScoreClusters DefaultScorer [exCluster]))))"
    using event_sources_sorted_by_published [of DefaultScorer "[exCluster]"] by blast
  moreover have "map PublishedAt (Items exCluster) = [9 * Hour, 8 * Hour]"
    by (simp add: exCluster_def exLate_def exEarly_def)
  moreover have "RefSource (hd (Sources (hd (ScoreClusters DefaultScorer [exCluster])))) = ''Bloomberg''"
    by code_simp
  ultimately show ?thesis
    using ne by blast
qed

section \<open>Order of the events\<close>

text \<open>
  C4, as the code has it. The events that \<^verbatim>\<open>ScoreClusters\<close> returns are the events of
  positive hotness built from the clusters, in non-increasing order of hotness. The
  comparison handed to \<^verbatim>\<open>sort.Slice\<close> reads the hotness only.
\<close>

theorem events_sorted_by_hotness:
  "sorted_wrt (\<lambda>a b. Hotness a \<ge> Hotness b) (ScoreClusters s clusters) \<and>
   mset (ScoreClusters s clusters) =
     mset (filter (\<lambda>event. 0 < Hotness event) (map (buildEvent s) clusters))"
proof -
  have "sorted_wrt (\<lambda>a b. - Hotness a \<le> - Hotness b)
      (sortSlice (\<lambda>a b. Hotness a > Hotness b) evs)" for evs :: "Event list"
    by (rule sorted_sortSlice) auto
  then have "sorted_wrt (\<lambda>a b. Hotness a \<ge> Hotness b)
      (sortSlice (\<lambda>a b. Hotness a > Hotness b) evs)" for evs :: "Event list"
    by simp
  then show ?thesis
    by (cases clusters) (simp_all add: ScoreClusters_def Let_def mset_sortSlice not_le)
qed

text \<open>
  Two clusters with the same items get the same hotness; the one with identifier
  \<open>b\<close>, first in the input, stays before the one with identifier \<open>a\<close>.
\<close>

theorem tie_break_by_id_counterexample:
  "Hotness (ScoreClusters DefaultScorer [exCluster, exClusterA] ! 0) =
     Hotness (ScoreClusters DefaultScorer [exCluster, exClusterA] ! 1) \<and>
   DedupGroup (ScoreClusters DefaultScorer [exCluster, exClusterA] ! 0) = ''b'' \<and>
   DedupGroup (ScoreClusters DefaultScorer [exCluster, exClusterA] ! 1) = ''a'' \<and>
   ''a'' < ''b''"
  by code_simp

section \<open>Tickers and entities of an event\<close>


lemma fold_addTicker_tickers:
  assumes "tickerSet st = set (tickers st)" and "distinct (tickers st)"
  shows "tickerSet (fold addTicker ts st) = set (tickers (fold addTicker ts st)) \<and>
    distinct (tickers (fold addTicker ts st)) \<and>
    set (tickers (fold addTicker ts st)) = set (tickers st) \<union> ToUpper ` set ts"
  using assms
proof (induction ts arbitrary: st)
  case Nil
  then show ?case by simp
next
  case (Cons t ts)
  have a: "tickerSet (addTicker t st) = set (tickers (addTicker t st))"
    and b: "distinct (tickers (addTicker t st))"
    and c: "set (tickers (addTicker t st)) = insert (ToUpper t) (set (tickers st))"
    using Cons.prems by (auto simp: addTicker_def Let_def)
  show ?case
    using Cons.IH [OF a b] c by auto
qed

lemma scanItem_tickers:
  assumes "tickerSet st = set (tickers st)" and "distinct (tickers st)"
  shows "tickerSet (scanItem item st) = set (tickers (scanItem item st)) \<and>
    distinct (tickers (scanItem item st)) \<and>
    set (tickers (scanItem item st)) = set (tickers st) \<union> ToUpper ` set (Tickers item)"
proof -
  let ?st1 = "st\<lparr>sources := sources st @
            [\<lparr>Title = Headline item, RefSource = Source item, RefURL = URL item,
              Published = PublishedAt item\<rparr>]\<rparr>"
  have "tickerSet ?st1 = set (tickers ?st1)" "distinct (tickers ?st1)"
    using assms by simp_all
  from fold_addTicker_tickers [OF this, of "Tickers item"]
  show ?thesis
    by (simp add: scanItem_def Let_def)
qed

lemma fold_scanItem_tickers:
  assumes "tickerSet st = set (tickers st)" and "distinct (tickers st)"
  shows "tickerSet (fold scanItem items st) = set (tickers (fold scanItem items st)) \<and>
    distinct (tickers (fold scanItem items st)) \<and>
    set (tickers (fold scanItem items st)) =
      set (tickers st) \<union> ToUpper ` (\<Union>item\<in>set items. set (Tickers item))"
  using assms
proof (induction items arbitrary: st)
  case Nil
  then show ?case by simp
next
  case (Cons item items)
  from scanItem_tickers [OF Cons.prems, of item]
  have a: "tickerSet (scanItem item st) = set (tickers (scanItem item st))"
    and b: "distinct (tickers (scanItem item st))"
    and c: "set (tickers (scanItem item st)) = set (tickers st) \<union> ToUpper ` set (Tickers item)"
    by simp_all
  show ?case
    using Cons.IH [OF a b] c by auto
qed

lemma buildEvent_EvTickers:
  assumes "Items c \<noteq> []"
  shows "\<exists>ts. EvTickers (buildEvent s c) = sort ts \<and> distinct ts \<and>
    set ts = ToUpper ` (\<Union>item\<in>set (Items c). set (Tickers item))"
proof -
  obtain first rest where it: "Items c = first # rest"
    using assms by (cases "Items c") auto
  have "tickerSet (scanStart first) = set (tickers (scanStart first))"
    "distinct (tickers (scanStart first))"
    by (simp_all add: scanStart_def)
  from fold_scanItem_tickers [OF this, of "Items c"]
  have "distinct (tickers (fold scanItem (Items c) (scanStart first)))"
    "set (tickers (fold scanItem (Items c) (scanStart first))) =
       ToUpper ` (\<Union>item\<in>set (Items c). set (Tickers item))"
    by (simp_all add: scanStart_def)
  moreover have "EvTickers (buildEvent s c) = sort (tickers (fold scanItem (Items c) (scanStart first)))"
    using it by (simp add: buildEvent_def Let_def case_prod_beta)
  ultimately show ?thesis by blast
qed


lemma find_append:
  "find P (xs @ ys) = (case find P xs of None \<Rightarrow> find P ys | Some x \<Rightarrow> Some x)"
  by (induction xs) simp_all

lemma find_None_image: "find (\<lambda>x. f x = k) xs = None \<longleftrightarrow> k \<notin> f ` set xs"
  by (auto simp: find_None_iff)

lemma addEntity_inv:
  assumes "entityInv seen st"
  shows "entityInv (seen @ [e]) (addEntity e st)"
proof (cases "normalizeEntity e \<in> entitySet st")
  case True
  then have same: "addEntity e st = st"
    by (simp add: addEntity_def Let_def)
  have "normalizeEntity ` set (seen @ [e]) = normalizeEntity ` set seen"
    using True assms by (auto simp: entityInv_def)
  moreover have "\<forall>x\<in>set (entities st).
      find (\<lambda>y. normalizeEntity y = normalizeEntity x) (seen @ [e]) = Some x"
    using assms by (simp add: entityInv_def find_append)
  ultimately show ?thesis
    using assms unfolding same by (simp add: entityInv_def)
next
  case False
  then have upd: "entities (addEntity e st) = entities st @ [e]"
    "entitySet (addEntity e st) = insert (normalizeEntity e) (entitySet st)"
    by (simp_all add: addEntity_def Let_def)
  have new: "normalizeEntity e \<notin> normalizeEntity ` set seen"
    using False assms by (simp add: entityInv_def)
  then have fe: "find (\<lambda>y. normalizeEntity y = normalizeEntity e) seen = None"
    by (simp add: find_None_image)
  have old: "\<forall>x\<in>set (entities st).
      find (\<lambda>y. normalizeEntity y = normalizeEntity x) (seen @ [e]) = Some x"
    using assms by (simp add: entityInv_def find_append)
  have self: "find (\<lambda>y. normalizeEntity y = normalizeEntity e) (seen @ [e]) = Some e"
    using fe by (simp add: find_append)
  have a: "entitySet st = normalizeEntity ` set (entities st)"
    and b: "distinct (map normalizeEntity (entities st))"
    and c: "normalizeEntity ` set (entities st) = normalizeEntity ` set seen"
    using assms by (simp_all add: entityInv_def)
  have 1: "entitySet (addEntity e st) = normalizeEntity ` set (entities (addEntity e st))"
    using a by (simp add: upd)
  have 2: "distinct (map normalizeEntity (entities (addEntity e st)))"
    using b False a by (simp add: upd)
  have 3: "normalizeEntity ` set (entities (addEntity e st)) = normalizeEntity ` set (seen @ [e])"
    using c by (simp add: upd)
  have 4: "\<forall>x\<in>set (entities (addEntity e st)).
      find (\<lambda>y. normalizeEntity y = normalizeEntity x) (seen @ [e]) = Some x"
    using old self by (simp add: upd)
  show ?thesis
    unfolding entityInv_def using 1 2 3 4 by blast
qed

lemma fold_addEntity_inv:
  assumes "entityInv seen st"
  shows "entityInv (seen @ es) (fold addEntity es st)"
  using assms
proof (induction es arbitrary: seen st)
  case Nil
  then show ?case by simp
next
  case (Cons e es)
  from Cons.IH [OF addEntity_inv [OF Cons.prems, of e]]
  show ?case by simp
qed

lemma entityInv_frame:
  assumes "entities st' = entities st" and "entitySet st' = entitySet st"
  shows "entityInv seen st' = entityInv seen st"
  using assms by (simp add: entityInv_def)

lemma scanItem_inv:
  assumes "entityInv seen st"
  shows "entityInv (seen @ Entities item) (scanItem item st)"
proof -
  let ?st2 = "fold addTicker (Tickers item) (st\<lparr>sources := sources st @
            [\<lparr>Title = Headline item, RefSource = Source item, RefURL = URL item,
              Published = PublishedAt item\<rparr>]\<rparr>)"
  have "entityInv seen ?st2"
    using assms by (simp add: entityInv_frame [of ?st2 st])
  then have "entityInv (seen @ Entities item) (fold addEntity (Entities item) ?st2)"
    by (rule fold_addEntity_inv)
  moreover have "entities (scanItem item st) = entities (fold addEntity (Entities item) ?st2)"
    "entitySet (scanItem item st) = entitySet (fold addEntity (Entities item) ?st2)"
    by (simp_all add: scanItem_def Let_def)
  ultimately show ?thesis
    using entityInv_frame [of "scanItem item st" "fold addEntity (Entities item) ?st2"] by blast
qed

lemma fold_scanItem_inv:
  assumes "entityInv seen st"
  shows "entityInv (seen @ concat (map Entities items)) (fold scanItem items st)"
  using assms
proof (induction items arbitrary: seen st)
  case Nil
  then show ?case by simp
next
  case (Cons item items)
  from Cons.IH [OF scanItem_inv [OF Cons.prems, of item]]
  show ?case by simp
qed

lemma buildEvent_EvEntities:
  assumes "Items c \<noteq> []"
  shows "\<exists>es. EvEntities (buildEvent s c) = sort es \<and>
    distinct (map normalizeEntity es) \<and>
    normalizeEntity ` set es = normalizeEntity ` set (concat (map Entities (Items c))) \<and>
    (\<forall>e\<in>set es. find (\<lambda>x. normalizeEntity x = normalizeEntity e)
       (concat (map Entities (Items c))) = Some e)"
proof -
  obtain first rest where it: "Items c = first # rest"
    using assms by (cases "Items c") auto
  have "entityInv [] (scanStart first)"
    by (simp add: entityInv_def scanStart_def)
  from fold_scanItem_inv [OF this, of "Items c"]
  have "entityInv (concat (map Entities (Items c))) (fold scanItem (Items c) (scanStart first))"
    by simp
  moreover have "EvEntities (buildEvent s c) = sort (entities (fold scanItem (Items c) (scanStart first)))"
    using it by (simp add: buildEvent_def Let_def case_prod_beta)
  ultimately show ?thesis
    unfolding entityInv_def by blast
qed

lemma distinct_map_sort:
  fixes es :: "'a::linorder list"
  shows "distinct (map f (sort es)) = distinct (map f es)"
proof -
  have "mset (map f (sort es)) = mset (map f es)"
    by simp
  then show ?thesis
    by (rule mset_eq_imp_distinct_iff)
qed

text \<open>
  C7, as the code has it. In every event that \<^verbatim>\<open>ScoreClusters\<close> returns, the tickers are
  the members' tickers in upper case, without duplicates, in lexicographic order; the
  entities are the members' entities, one for each key (the entity trimmed and in lower
  case), each the first one seen with its key and in its original spelling, and they
  too are in lexicographic order, not in first-seen order.
\<close>

theorem event_tickers_and_entities:
  "\<forall>ev\<in>set (ScoreClusters s clusters). \<exists>c\<in>set clusters.
     Items c \<noteq> [] \<and> ev = buildEvent s c \<and>
     sorted (EvTickers ev) \<and> distinct (EvTickers ev) \<and>
     set (EvTickers ev) = ToUpper ` (\<Union>item\<in>set (Items c). set (Tickers item)) \<and>
     sorted (EvEntities ev) \<and> distinct (map normalizeEntity (EvEntities ev)) \<and>
     normalizeEntity ` set (EvEntities ev) =
       normalizeEntity ` set (concat (map Entities (Items c))) \<and>
     (\<forall>e\<in>set (EvEntities ev). find (\<lambda>x. normalizeEntity x = normalizeEntity e)
        (concat (map Entities (Items c))) = Some e)"
proof
  fix ev
  assume "ev \<in> set (ScoreClusters s clusters)"
  then obtain c where c: "c \<in> set clusters" "Items c \<noteq> []" "ev = buildEvent s c"
    using ScoreClusters_from_cluster by blast
  obtain ts where ts: "EvTickers ev = sort ts" "distinct ts"
    "set ts = ToUpper ` (\<Union>item\<in>set (Items c). set (Tickers item))"
    using buildEvent_EvTickers [OF c(2), of s] c(3) by blast
  obtain es where es: "EvEntities ev = sort es" "distinct (map normalizeEntity es)"
    "normalizeEntity ` set es = normalizeEntity ` set (concat (map Entities (Items c)))"
    "\<forall>e\<in>set es. find (\<lambda>x. normalizeEntity x = normalizeEntity e)
       (concat (map Entities (Items c))) = Some e"
    using buildEvent_EvEntities [OF c(2), of s] c(3) by blast
  have t: "sorted (EvTickers ev) \<and> distinct (EvTickers ev) \<and>
     set (EvTickers ev) = ToUpper ` (\<Union>item\<in>set (Items c). set (Tickers item))"
    using ts by simp
  have e1: "sorted (EvEntities ev)"
    using es(1) by simp
  have e2: "distinct (map normalizeEntity (EvEntities ev))"
    using es(1,2) by (simp add: distinct_map_sort)
  have e3: "normalizeEntity ` set (EvEntities ev) =
       normalizeEntity ` set (concat (map Entities (Items c)))"
    using es(1,3) by simp
  have e4: "\<forall>e\<in>set (EvEntities ev). find (\<lambda>x. normalizeEntity x = normalizeEntity e)
        (concat (map Entities (Items c))) = Some e"
    using es(1,4) by simp
  show "\<exists>c\<in>set clusters.
     Items c \<noteq> [] \<and> ev = buildEvent s c \<and>
     sorted (EvTickers ev) \<and> distinct (EvTickers ev) \<and>
     set (EvTickers ev) = ToUpper ` (\<Union>item\<in>set (Items c). set (Tickers item)) \<and>
     sorted (EvEntities ev) \<and> distinct (map normalizeEntity (EvEntities ev)) \<and>
     normalizeEntity ` set (EvEntities ev) =
       normalizeEntity ` set (concat (map Entities (Items c))) \<and>
     (\<forall>e\<in>set (EvEntities ev). find (\<lambda>x. normalizeEntity x = normalizeEntity e)
        (concat (map Entities (Items c))) = Some e)"
    using c t e1 e2 e3 e4 by blast
qed

text \<open>
  On the example cluster the tickers \<open>cma\<close>, \<open>XYZ\<close>, \<open>CMA\<close> become \<open>CMA\<close>, \<open>XYZ\<close>, and the
  entities \<open>Supplier\<close>, \<open>Company A\<close>, \<open>company a\<close> become \<open>Company A\<close>, \<open>Supplier\<close>.
\<close>

theorem event_tickers_and_entities_witness:
  "ScoreClusters DefaultScorer [exCluster] \<noteq> [] \<and>
   sorted (EvTickers (hd (ScoreClusters DefaultScorer [exCluster]))) \<and>
   distinct (EvTickers (hd (ScoreClusters DefaultScorer [exCluster]))) \<and>
   sorted (EvEntities (hd (ScoreClusters DefaultScorer [exCluster]))) \<and>
   distinct (map normalizeEntity (EvEntities (hd (ScoreClusters DefaultScorer [exCluster])))) \<and>
   EvTickers (hd (ScoreClusters DefaultScorer [exCluster])) = [''CMA'', ''XYZ''] \<and>
   EvEntities (hd (ScoreClusters DefaultScorer [exCluster])) = [''Company A'', ''Supplier'']"
proof -
  have ne: "ScoreClusters DefaultScorer [exCluster] \<noteq> []"
    by code_simp
  then have "hd (ScoreClusters DefaultScorer [exCluster]) \<in> set (ScoreClusters DefaultScorer [exCluster])"
    by simp
  then have "sorted (EvTickers (hd (ScoreClusters DefaultScorer [exCluster]))) \<and>
   distinct (EvTickers (hd (ScoreClusters DefaultScorer [exCluster]))) \<and>
   sorted (EvEntities (hd (ScoreClusters DefaultScorer [exCluster]))) \<and>
   distinct (map normalizeEntity (EvEntities (hd (ScoreClusters DefaultScorer [exCluster]))))"
    using event_tickers_and_entities [of DefaultScorer "[exCluster]"] by blast
  moreover have "EvTickers (hd (ScoreClusters DefaultScorer [exCluster])) = [''CMA'', ''XYZ'']"
    by code_simp
  moreover have "EvEntities (hd (ScoreClusters DefaultScorer [exCluster])) = [''Company A'', ''Supplier'']"
    by code_simp
  ultimately show ?thesis
    using ne by blast
qed

text \<open>
  The entities of the example cluster in first-seen order are \<open>Supplier\<close>, \<open>Company A\<close>;
  the event lists them sorted.
\<close>

theorem entities_first_seen_counterexample:
  "concat (map Entities (Items exCluster)) = [''Supplier'', ''Company A'', ''company a''] \<and>
   spec_entities (Items exCluster) = [''Supplier'', ''Company A''] \<and>
   EvEntities (hd (ScoreClusters DefaultScorer [exCluster])) = [''Company A'', ''Supplier''] \<and>
   EvEntities (hd (ScoreClusters DefaultScorer [exCluster])) \<noteq> spec_entities (Items exCluster)"
  by code_simp

section \<open>The loop of buildEvent in closed form\<close>


lemma fold_scanItem_totalSentiment:
  "totalSentiment (fold scanItem items st) =
     totalSentiment st + sum_list (map (\<lambda>item. \<bar>Sentiment item\<bar>) items)"
  by (induction items arbitrary: st) (simp_all add: scanItem_def Let_def)

lemma fold_scanItem_negativeCount:
  "negativeCount (fold scanItem items st) =
     negativeCount st + length (filter (\<lambda>item. Sentiment item < 0) items)"
  by (induction items arbitrary: st) (simp_all add: scanItem_def Let_def)

lemma scanItem_earliest: "earliest (scanItem item st) = min (PublishedAt item) (earliest st)"
  by (simp add: scanItem_def Let_def min_def)

lemma scanItem_latest: "latest (scanItem item st) = max (PublishedAt item) (latest st)"
  by (simp add: scanItem_def Let_def max_def)

lemma Min_insert_min:
  fixes a e :: int
  assumes "finite S"
  shows "Min (insert (min a e) S) = Min (insert e (insert a S))"
  using assms by (cases "S = {}") (simp_all add: min.commute min.left_commute)

lemma Max_insert_max:
  fixes a e :: int
  assumes "finite S"
  shows "Max (insert (max a e) S) = Max (insert e (insert a S))"
  using assms by (cases "S = {}") (simp_all add: max.commute max.left_commute)

lemma fold_scanItem_earliest:
  "earliest (fold scanItem items st) = Min (insert (earliest st) (PublishedAt ` set items))"
proof (induction items arbitrary: st)
  case Nil
  then show ?case by simp
next
  case (Cons item items)
  have "Min (insert (min (PublishedAt item) (earliest st)) (PublishedAt ` set items)) =
      Min (insert (earliest st) (insert (PublishedAt item) (PublishedAt ` set items)))"
    by (rule Min_insert_min) simp
  then show ?case
    by (simp only: fold_simps Cons.IH scanItem_earliest list.set image_insert)
qed

lemma fold_scanItem_latest:
  "latest (fold scanItem items st) = Max (insert (latest st) (PublishedAt ` set items))"
proof (induction items arbitrary: st)
  case Nil
  then show ?case by simp
next
  case (Cons item items)
  have "Max (insert (max (PublishedAt item) (latest st)) (PublishedAt ` set items)) =
      Max (insert (latest st) (insert (PublishedAt item) (PublishedAt ` set items)))"
    by (rule Max_insert_max) simp
  then show ?case
    by (simp only: fold_simps Cons.IH scanItem_latest list.set image_insert)
qed

lemma all_negative_iff:
  "(0 < length (filter P xs) \<and> length (filter P xs) = length xs) \<longleftrightarrow> (xs \<noteq> [] \<and> list_all P xs)"
proof -
  have "length (filter P xs) = length xs \<longleftrightarrow> list_all P xs"
  proof
    assume eq: "length (filter P xs) = length xs"
    show "list_all P xs"
    proof (rule ccontr)
      assume "\<not> list_all P xs"
      then obtain x where "x \<in> set xs" "\<not> P x"
        by (auto simp: list_all_iff)
      then have "length (filter P xs) < length xs"
        by (rule length_filter_less)
      then show False using eq by simp
    qed
  next
    assume "list_all P xs"
    then show "length (filter P xs) = length xs"
      by (simp add: list_all_iff)
  qed
  then show ?thesis by auto
qed

lemma Hours_eq: "Hours d = real_of_int d / 3600000000000"
proof -
  have "real_of_int d = real_of_int (d div Hour) * real_of_int Hour + real_of_int (d mod Hour)"
    by (metis div_mult_mod_eq of_int_add of_int_mult)
  then show ?thesis
    by (simp add: Hours_def Hour_def field_simps)
qed

lemma velocity_saturated:
  assumes "e \<le> l"
  shows "(if Sub l e > 0 then max 0.2 (min 1 (6 / (Hours (Sub l e) + 1))) else (1::real)) =
    (if real_of_int (l - e) / 3600000000000 = 0 then 1
     else max 0.2 (min 1 (6 / (real_of_int (l - e) / 3600000000000 + 1))))"
proof (cases "l - e > maxDuration")
  case False
  then have "Sub l e = l - e"
    using assms by (simp add: Sub_def minDuration_def)
  then show ?thesis
    using assms by (auto simp: Hours_eq)
next
  case True
  then have s: "Sub l e = maxDuration"
    by (simp add: Sub_def)
  have big: "real_of_int maxDuration / 3600000000000 \<ge> 29"
    by (simp add: maxDuration_def)
  have big': "real_of_int (l - e) / 3600000000000 \<ge> 29"
  proof -
    have "real_of_int maxDuration \<le> real_of_int (l - e)"
      using True by linarith
    then show ?thesis using big by (simp add: field_simps)
  qed
  have flat: "max 0.2 (min 1 (6 / (h + 1))) = 0.2" if "h \<ge> 29" for h :: real
  proof -
    have "6 / (h + 1) \<le> 0.2"
      using that by (simp add: field_simps)
    then show ?thesis by (simp add: max_def min_def)
  qed
  have pos: "Sub l e > 0"
    by (simp add: s maxDuration_def)
  have nz: "real_of_int (l - e) / 3600000000000 \<noteq> 0"
    using big' by linarith
  have "max 0.2 (min 1 (6 / (Hours (Sub l e) + 1))) = (0.2::real)"
    using flat [of "Hours (Sub l e)"] big by (simp only: Hours_eq s)
  moreover have "max 0.2 (min 1 (6 / (real_of_int (l - e) / 3600000000000 + 1))) = (0.2::real)"
    using flat [OF big'] .
  ultimately show ?thesis
    using pos nz by (simp only: if_True if_False)
qed

lemma fold_source_total:
  "fold (\<lambda>item total.
      case SourceWeights s (ToLower (Source item)) of
        Some w \<Rightarrow> total + w
      | None \<Rightarrow> total + 0.5) items t =
   t + sum_list (map (sourceWeightOf s) items)"
  by (induction items arbitrary: t) (simp_all add: sourceWeightOf_def split: option.splits)

lemma averageSourceWeight_closed: "averageSourceWeight s items = sourceScore s items"
  by (simp add: averageSourceWeight_def sourceScore_def meanSourceWeight_def Let_def
      fold_source_total)

lemma fold_tag_best:
  "fold (\<lambda>item best.
      case TagWeights s (ImportanceTag item) of
        Some w \<Rightarrow> if w > best then w else best
      | None \<Rightarrow> best) items b =
   Max (insert b (set (matchedTagWeights s items)))"
proof (induction items arbitrary: b)
  case Nil
  then show ?case by (simp add: matchedTagWeights_def)
next
  case (Cons item items)
  show ?case
  proof (cases "TagWeights s (ImportanceTag item)")
    case None
    then show ?thesis
      using Cons.IH [of b] by (simp add: matchedTagWeights_def)
  next
    case (Some w)
    have "(if w > b then w else b) = max w b"
      by (simp add: max_def)
    moreover have "Max (insert (max w b) (set (matchedTagWeights s items))) =
        Max (insert b (insert w (set (matchedTagWeights s items))))"
      by (cases "set (matchedTagWeights s items) = {}")
        (simp_all add: max.commute max.left_commute)
    ultimately show ?thesis
      using Some Cons.IH [of "max w b"] by (simp add: matchedTagWeights_def)
  qed
qed

lemma Max_positive:
  fixes ws :: "real list"
  assumes "filter (\<lambda>w. 0 < w) ws \<noteq> []"
  shows "Max (set (filter (\<lambda>w. 0 < w) ws)) \<in> set ws \<and> 0 < Max (set (filter (\<lambda>w. 0 < w) ws))"
proof -
  have "set (filter (\<lambda>w. 0 < w) ws) \<noteq> {}"
    using assms by (simp del: set_filter)
  then have "Max (set (filter (\<lambda>w. 0 < w) ws)) \<in> set (filter (\<lambda>w. 0 < w) ws)"
    by (rule Max_in [OF finite_set])
  then show ?thesis by simp
qed

lemma Max_insert_zero:
  fixes ws :: "real list"
  shows "Max (insert 0 (set ws)) =
    (if filter (\<lambda>w. 0 < w) ws = [] then 0 else Max (set (filter (\<lambda>w. 0 < w) ws)))"
proof (cases "filter (\<lambda>w. 0 < w) ws = []")
  case True
  then have "\<forall>w\<in>set ws. w \<le> 0"
    by (auto simp: filter_empty_conv not_less)
  then have "Max (insert 0 (set ws)) = 0"
    by (intro Max_eqI) auto
  then show ?thesis using True by simp
next
  case False
  define m where "m = Max (set (filter (\<lambda>w. 0 < w) ws))"
  have m: "m \<in> set ws" "0 < m"
    using Max_positive [OF False] by (simp_all add: m_def)
  have "Max (insert 0 (set ws)) = m"
  proof (rule Max_eqI)
    show "finite (insert 0 (set ws))" by simp
  next
    fix y assume y: "y \<in> insert 0 (set ws)"
    show "y \<le> m"
    proof (cases "0 < y")
      case True
      then have "y \<in> set (filter (\<lambda>w. 0 < w) ws)" using y by auto
      then show ?thesis unfolding m_def by (rule Max_ge [OF finite_set])
    next
      case False
      then show ?thesis using m(2) by linarith
    qed
  next
    show "m \<in> insert 0 (set ws)" using m(1) by simp
  qed
  then show ?thesis using False by (simp add: m_def del: set_filter)
qed

lemma tagWeight_closed: "tagWeight s items = tagScore s items"
proof -
  let ?ws = "matchedTagWeights s items"
  have t: "tagWeight s items =
      (if Max (insert 0 (set ?ws)) = 0 then 0.45 else Max (insert 0 (set ?ws)))"
    by (simp add: tagWeight_def Let_def fold_tag_best)
  show ?thesis
  proof (cases "filter (\<lambda>w. 0 < w) ?ws = []")
    case True
    then have "Max (insert 0 (set ?ws)) = 0"
      by (simp add: Max_insert_zero del: set_filter)
    then show ?thesis
      using True by (simp add: t tagScore_def Let_def del: set_filter)
  next
    case False
    then have "Max (insert 0 (set ?ws)) = Max (set (filter (\<lambda>w. 0 < w) ?ws))"
      by (simp add: Max_insert_zero del: set_filter)
    moreover have "Max (set (filter (\<lambda>w. 0 < w) ?ws)) \<noteq> 0"
      using Max_positive [OF False] by simp
    ultimately show ?thesis
      using False by (simp add: t tagScore_def Let_def del: set_filter)
  qed
qed

lemma length_tickers_closed:
  assumes "Items c = first # rest"
  shows "length (sort (tickers (fold scanItem (Items c) (scanStart first)))) =
    card (ToUpper ` set (concat (map Tickers (Items c))))"
proof -
  have "tickerSet (scanStart first) = set (tickers (scanStart first))"
    "distinct (tickers (scanStart first))"
    by (simp_all add: scanStart_def)
  from fold_scanItem_tickers [OF this, of "Items c"]
  have d: "distinct (tickers (fold scanItem (Items c) (scanStart first)))"
    and e: "set (tickers (fold scanItem (Items c) (scanStart first))) =
       ToUpper ` (\<Union>item\<in>set (Items c). set (Tickers item))"
    by (simp_all add: scanStart_def)
  have "length (tickers (fold scanItem (Items c) (scanStart first))) =
      card (set (tickers (fold scanItem (Items c) (scanStart first))))"
    using d by (simp add: distinct_card)
  then show ?thesis
    by (simp add: e)
qed

lemma length_entities_closed:
  assumes "Items c = first # rest"
  shows "length (sort (entities (fold scanItem (Items c) (scanStart first)))) =
    card (normalizeEntity ` set (concat (map Entities (Items c))))"
proof -
  let ?es = "entities (fold scanItem (Items c) (scanStart first))"
  have "entityInv [] (scanStart first)"
    by (simp add: entityInv_def scanStart_def)
  from fold_scanItem_inv [OF this, of "Items c"]
  have inv: "entityInv (concat (map Entities (Items c))) (fold scanItem (Items c) (scanStart first))"
    by simp
  then have d: "distinct (map normalizeEntity ?es)"
    and e: "normalizeEntity ` set ?es = normalizeEntity ` set (concat (map Entities (Items c)))"
    by (simp_all add: entityInv_def)
  have "length ?es = length (map normalizeEntity ?es)"
    by simp
  also have "\<dots> = card (set (map normalizeEntity ?es))"
    using d by (simp only: distinct_card)
  also have "\<dots> = card (normalizeEntity ` set (concat (map Entities (Items c))))"
    using e by simp
  finally show ?thesis by simp
qed

lemma weightedSum_map:
  "weightedSum [''coverage'' \<mapsto> a, ''velocity'' \<mapsto> b, ''credibility'' \<mapsto> c,
     ''sentiment'' \<mapsto> d, ''tag'' \<mapsto> e, ''breadth'' \<mapsto> f, ''novelty'' \<mapsto> g] =
   clamp01 (0.18 * a + 0.18 * b + 0.15 * c + 0.12 * d + 0.18 * e + 0.12 * f + 0.07 * g)"
  by (simp add: weightedSum_def weightAt_def mult.commute)

lemma buildEvent_Hotness:
  assumes "Items c \<noteq> []"
  shows "Hotness (buildEvent s c) =
    hotnessOf (coverage (Items c)) (velocity (Items c)) (sourceScore s (Items c))
      (sentimentScore (Items c)) (tagScore s (Items c)) (breadthScore (Items c))
      (extentScore (Items c)) (novelty (Items c))"
proof -
  obtain first rest where it: "Items c = first # rest"
    using assms by (cases "Items c") auto
  let ?items = "Items c"
  let ?st = "fold scanItem ?items (scanStart first)"
  have first_in: "insert (PublishedAt first) (PublishedAt ` set ?items) = set (map PublishedAt ?items)"
    using it by auto
  have e: "earliest ?st = Min (set (map PublishedAt ?items))"
    by (simp only: fold_scanItem_earliest first_in) (simp add: scanStart_def first_in)
  have l: "latest ?st = Max (set (map PublishedAt ?items))"
    by (simp only: fold_scanItem_latest first_in) (simp add: scanStart_def first_in)
  have "Max (set (map PublishedAt ?items)) \<in> set (map PublishedAt ?items)"
    using assms by (intro Max_in) simp_all
  then have le: "earliest ?st \<le> latest ?st"
    unfolding e l by (intro Min_le) simp_all
  have vel: "(if Sub (latest ?st) (earliest ?st) > 0
       then max 0.2 (min 1 (6 / (Hours (Sub (latest ?st) (earliest ?st)) + 1))) else 1) =
      velocity ?items"
    unfolding velocity_saturated [OF le] by (simp add: velocity_def spanHours_def e l)
  have tot: "totalSentiment ?st = sum_list (map (\<lambda>item. \<bar>Sentiment item\<bar>) ?items)"
    by (simp add: fold_scanItem_totalSentiment scanStart_def)
  have neg: "negativeCount ?st = length (filter (\<lambda>item. Sentiment item < 0) ?items)"
    by (simp add: fold_scanItem_negativeCount scanStart_def)
  have sen: "(if negativeCount ?st > 0 \<and> negativeCount ?st = length ?items
       then min 1 (min 1 (totalSentiment ?st / real (length ?items)) + 0.15)
       else min 1 (totalSentiment ?st / real (length ?items))) = sentimentScore ?items"
    unfolding neg all_negative_iff tot using assms by (simp add: sentimentScore_def Let_def)
  have nov: "(if real (length ?items) > 1
       then 1 - min 0.6 ((real (length ?items) - 1) * 0.12) else 1) = novelty ?items"
    by (simp add: novelty_def coverage_def)
  have br: "min 1 (real (length (sort (tickers ?st))) / 4) = breadthScore ?items"
    by (simp only: length_tickers_closed [OF it] breadthScore_def reach_def)
  have ex: "min 1 (real (length (sort (entities ?st))) / 6) = extentScore ?items"
    by (simp only: length_entities_closed [OF it] extentScore_def)
  have "Hotness (buildEvent s c) = roundTo (weightedSum
      [''coverage'' \<mapsto> min 1 (real (length ?items) / 4),
       ''velocity'' \<mapsto> (if Sub (latest ?st) (earliest ?st) > 0
          then max 0.2 (min 1 (6 / (Hours (Sub (latest ?st) (earliest ?st)) + 1))) else 1),
       ''credibility'' \<mapsto> averageSourceWeight s ?items,
       ''sentiment'' \<mapsto> (if negativeCount ?st > 0 \<and> negativeCount ?st = length ?items
          then min 1 (min 1 (totalSentiment ?st / real (length ?items)) + 0.15)
          else min 1 (totalSentiment ?st / real (length ?items))),
       ''tag'' \<mapsto> tagWeight s ?items,
       ''breadth'' \<mapsto> 0.6 * min 1 (real (length (sort (tickers ?st))) / 4) +
          0.4 * min 1 (real (length (sort (entities ?st))) / 6),
       ''novelty'' \<mapsto> (if real (length ?items) > 1
          then 1 - min 0.6 ((real (length ?items) - 1) * 0.12) else 1)]) 3"
    using it by (simp add: buildEvent_def Let_def case_prod_beta)
  also have "\<dots> = hotnessOf (coverage ?items) (velocity ?items) (sourceScore s ?items)
      (sentimentScore ?items) (tagScore s ?items) (breadthScore ?items)
      (extentScore ?items) (novelty ?items)"
    unfolding vel sen nov br ex weightedSum_map averageSourceWeight_closed tagWeight_closed
    by (simp only: hotnessOf_def coverage_def)
  finally show ?thesis .
qed

section \<open>Range of the hotness\<close>

lemma clamp01_range: "0 \<le> clamp01 v \<and> clamp01 v \<le> 1"
  by (simp add: clamp01_def)

lemma clamp01_mono_low:
  assumes "b \<le> v" and "b \<le> 1"
  shows "b \<le> clamp01 v"
  using assms by (simp add: clamp01_def)

lemma roundTo3_range:
  assumes "0 \<le> v" and "v \<le> 1"
  shows "0 \<le> roundTo v 3 \<and> roundTo v 3 \<le> 1"
proof -
  have "0 \<le> \<lfloor>v * 1000 + 1 / 2\<rfloor>"
    using assms by (simp add: le_floor_iff)
  moreover have "\<lfloor>v * 1000 + 1 / 2\<rfloor> \<le> 1000"
  proof -
    have "v * 1000 + 1 / 2 < 1001" using assms by simp
    then have "\<lfloor>v * 1000 + 1 / 2\<rfloor> < 1001" by (simp add: floor_less_iff)
    then show ?thesis by simp
  qed
  ultimately show ?thesis
    using assms by (simp add: roundTo_def Round_def Let_def field_simps)
qed

lemma roundTo3_mono_low:
  assumes "0.109 \<le> v"
  shows "0.109 \<le> roundTo v 3"
proof -
  have "109 \<le> \<lfloor>v * 1000 + 1 / 2\<rfloor>"
    using assms by (simp add: le_floor_iff)
  then have "109 \<le> real_of_int \<lfloor>v * 1000 + 1 / 2\<rfloor>"
    by linarith
  then show ?thesis
    using assms by (simp add: roundTo_def Round_def Let_def field_simps)
qed

section \<open>Events of positive hotness\<close>

lemma sourceScore_nonneg:
  assumes "\<forall>k w. SourceWeights s k = Some w \<longrightarrow> 0 \<le> w"
  shows "0 \<le> sourceScore s items"
proof -
  have "0 \<le> sourceWeightOf s item" for item
    using assms by (simp add: sourceWeightOf_def split: option.splits)
  then have "0 \<le> sum_list (map (sourceWeightOf s) items)"
    by (intro sum_list_nonneg) auto
  then show ?thesis
    by (simp add: sourceScore_def meanSourceWeight_def)
qed

lemma tagScore_pos: "0 < tagScore s items"
  using Max_positive [of "matchedTagWeights s items"] by (simp add: tagScore_def Let_def del: set_filter)

lemma sentimentScore_nonneg: "0 \<le> sentimentScore items"
proof -
  have "0 \<le> sum_list (map (\<lambda>item. \<bar>Sentiment item\<bar>) items)"
    by (intro sum_list_nonneg) auto
  then have "0 \<le> min 1 (sum_list (map (\<lambda>item. \<bar>Sentiment item\<bar>) items) / real (length items))"
    by simp
  then show ?thesis
    by (simp add: sentimentScore_def Let_def)
qed

lemma velocity_low: "0.2 \<le> velocity items"
proof (cases "spanHours items = 0")
  case True
  then show ?thesis by (simp add: velocity_def)
next
  case False
  have "(0.2::real) \<le> max 0.2 (min 1 (6 / (spanHours items + 1)))"
    by (rule max.cobounded1)
  then show ?thesis using False by (simp only: velocity_def if_False)
qed

lemma novelty_low: "0.4 \<le> novelty items"
  by (simp add: novelty_def min_def)

lemma coverage_low:
  assumes "items \<noteq> []"
  shows "0.25 \<le> min 1 (coverage items / 4)"
proof -
  have "1 \<le> length items" using assms by (cases items) simp_all
  then have "1 \<le> real (length items)" by simp
  then show ?thesis by (simp add: coverage_def)
qed

lemma breadth_extent_nonneg: "0 \<le> breadthScore items \<and> 0 \<le> extentScore items"
  by (simp add: breadthScore_def extentScore_def reach_def)

lemma weighted_low:
  fixes a b c d e f1 f2 g :: real
  assumes "0.25 \<le> a" "0.2 \<le> b" "0 \<le> c" "0 \<le> d" "0 < e" "0 \<le> f1 \<and> 0 \<le> f2" "0.4 \<le> g"
  shows "0.109 \<le> 0.18 * a + 0.18 * b + 0.15 * c + 0.12 * d + 0.18 * e +
    0.12 * (0.6 * f1 + 0.4 * f2) + 0.07 * g"
  using assms by (simp add: add_divide_distrib)

lemma buildEvent_Hotness_low:
  assumes w: "\<forall>k w. SourceWeights s k = Some w \<longrightarrow> 0 \<le> w" and ne: "Items c \<noteq> []"
  shows "0.109 \<le> Hotness (buildEvent s c)"
proof -
  let ?items = "Items c"
  have "0.109 \<le> 0.18 * min 1 (coverage ?items / 4) + 0.18 * velocity ?items +
        0.15 * sourceScore s ?items + 0.12 * sentimentScore ?items +
        0.18 * tagScore s ?items +
        0.12 * (0.6 * breadthScore ?items + 0.4 * extentScore ?items) +
        0.07 * novelty ?items"
    by (rule weighted_low [OF coverage_low [OF ne] velocity_low sourceScore_nonneg [OF w]
      sentimentScore_nonneg tagScore_pos breadth_extent_nonneg novelty_low])
  then have "0.109 \<le> clamp01 (0.18 * min 1 (coverage ?items / 4) + 0.18 * velocity ?items +
        0.15 * sourceScore s ?items + 0.12 * sentimentScore ?items +
        0.18 * tagScore s ?items +
        0.12 * (0.6 * breadthScore ?items + 0.4 * extentScore ?items) +
        0.07 * novelty ?items)"
    by (rule clamp01_mono_low) simp
  then show ?thesis
    unfolding buildEvent_Hotness [OF ne] hotnessOf_def by (rule roundTo3_mono_low)
qed

text \<open>
  C9, as the code has it. When no configured source weight is negative (the tag weights
  are arbitrary), the hotness of the event of a cluster with at least one item is at
  least 0.109, so \<^verbatim>\<open>ScoreClusters\<close> drops no such event: it returns the events of the
  clusters that have items, one for each.
\<close>

theorem hotness_positive_nonneg_sources:
  assumes "\<forall>k w. SourceWeights s k = Some w \<longrightarrow> 0 \<le> w"
  shows "(\<forall>c\<in>set clusters. Items c \<noteq> [] \<longrightarrow> 0.109 \<le> Hotness (buildEvent s c)) \<and>
    mset (ScoreClusters s clusters) =
      mset (map (buildEvent s) (filter (\<lambda>c. Items c \<noteq> []) clusters)) \<and>
    length (ScoreClusters s clusters) = length (filter (\<lambda>c. Items c \<noteq> []) clusters)"
proof -
  have low: "\<forall>c\<in>set clusters. Items c \<noteq> [] \<longrightarrow> 0.109 \<le> Hotness (buildEvent s c)"
    using buildEvent_Hotness_low [OF assms] by blast
  have keep: "(\<not> Hotness (buildEvent s c) \<le> 0) \<longleftrightarrow> Items c \<noteq> []" for c
  proof (cases "Items c = []")
    case True
    then show ?thesis by (simp add: buildEvent_def zeroEvent_def)
  next
    case False
    then show ?thesis using buildEvent_Hotness_low [OF assms False] by simp
  qed
  have "filter (\<lambda>event. \<not> Hotness event \<le> 0) (map (buildEvent s) clusters) =
      map (buildEvent s) (filter (\<lambda>c. Items c \<noteq> []) clusters)"
    by (simp add: filter_map comp_def keep)
  then have m: "mset (ScoreClusters s clusters) =
      mset (map (buildEvent s) (filter (\<lambda>c. Items c \<noteq> []) clusters))"
    by (cases clusters) (simp_all add: ScoreClusters_def Let_def mset_sortSlice del: mset_map)
  have "length (ScoreClusters s clusters) = length (map (buildEvent s) (filter (\<lambda>c. Items c \<noteq> []) clusters))"
    using m by (rule mset_eq_length)
  then show ?thesis
    using low m by simp
qed

theorem hotness_positive_nonneg_sources_witness:
  "(0.109::real) \<le> Hotness (buildEvent DefaultScorer exCluster) \<and>
   length (ScoreClusters DefaultScorer [exCluster, exCluster\<lparr>Items := []\<rparr>]) = 1"
proof -
  have w: "\<forall>k w. SourceWeights DefaultScorer k = Some w \<longrightarrow> 0 \<le> w"
    by (auto simp: DefaultScorer_def split: if_splits)
  have ne: "Items exCluster \<noteq> []"
    by (simp add: exCluster_def)
  show ?thesis
    using hotness_positive_nonneg_sources [OF w, of "[exCluster, exCluster\<lparr>Items := []\<rparr>]"] ne
    by simp
qed

text \<open>
  With a source weight of \<open>-3\<close> the weighted sum of a cluster of one item is negative,
  the hotness is 0 and \<^verbatim>\<open>ScoreClusters\<close> drops the event.
\<close>

theorem hotness_positive_counterexample:
  "Items exRumourCluster \<noteq> [] \<and>
   Hotness (buildEvent (exNegScorer\<lparr>SourceWeights := [''rumours'' \<mapsto> - 3]\<rparr>) exRumourCluster) = 0 \<and>
   ScoreClusters (exNegScorer\<lparr>SourceWeights := [''rumours'' \<mapsto> - 3]\<rparr>) [exRumourCluster] = []"
  by code_simp

section \<open>The heuristic clusters partition the input\<close>

lemma length_absorb: "Items (absorb cluster item) = Items cluster @ [item]"
  by (simp add: absorb_def)

lemma assign_Some:
  assumes "assign c item clusters = Some clusters'"
    and "\<forall>cl\<in>set clusters. Items cl \<noteq> [] \<and> int (length (Items cl)) \<le> max 1 (MaxClusterSize c)"
  shows "mset (concat (map Items clusters')) = add_mset item (mset (concat (map Items clusters))) \<and>
    (\<forall>cl\<in>set clusters'. Items cl \<noteq> [] \<and> int (length (Items cl)) \<le> max 1 (MaxClusterSize c))"
  using assms
proof (induction clusters arbitrary: clusters')
  case Nil
  then show ?case by simp
next
  case (Cons cluster rest)
  show ?case
  proof (cases "\<not> int (length (Items cluster)) \<ge> MaxClusterSize c \<and>
      withinWindow (StartTime cluster) (EndTime cluster) (PublishedAt item) (TimeWindow c) \<and>
      clusterContainsRelated cluster item (SimilarityThreshold c)")
    case True
    then have "clusters' = absorb cluster item # rest"
      using Cons.prems(1) by simp
    moreover have "int (length (Items (absorb cluster item))) \<le> max 1 (MaxClusterSize c)"
      using True by (simp add: length_absorb)
    ultimately show ?thesis
      using Cons.prems(2) by (simp add: length_absorb)
  next
    case False
    then have "map_option ((#) cluster) (assign c item rest) = Some clusters'"
      using Cons.prems(1) by (simp split: if_splits)
    then obtain rest' where r: "assign c item rest = Some rest'" "clusters' = cluster # rest'"
      by auto
    have "\<forall>cl\<in>set rest. Items cl \<noteq> [] \<and> int (length (Items cl)) \<le> max 1 (MaxClusterSize c)"
      using Cons.prems(2) by simp
    from Cons.IH [OF r(1) this] show ?thesis
      using r(2) Cons.prems(2) by simp
  qed
qed

lemma place_inv:
  assumes "\<forall>cl\<in>set clusters. Items cl \<noteq> [] \<and> int (length (Items cl)) \<le> max 1 (MaxClusterSize c)"
  shows "mset (concat (map Items (place c uuid item clusters))) =
      add_mset item (mset (concat (map Items clusters))) \<and>
    (\<forall>cl\<in>set (place c uuid item clusters).
       Items cl \<noteq> [] \<and> int (length (Items cl)) \<le> max 1 (MaxClusterSize c))"
proof (cases "assign c item clusters")
  case None
  then show ?thesis using assms by (simp add: place_def)
next
  case (Some clusters')
  from assign_Some [OF Some assms] show ?thesis
    using Some by (simp add: place_def)
qed

lemma fold_place_inv:
  assumes "\<forall>cl\<in>set clusters. Items cl \<noteq> [] \<and> int (length (Items cl)) \<le> max 1 (MaxClusterSize c)"
  shows "mset (concat (map Items (fold (place c uuid) items clusters))) =
      mset items + mset (concat (map Items clusters)) \<and>
    (\<forall>cl\<in>set (fold (place c uuid) items clusters).
       Items cl \<noteq> [] \<and> int (length (Items cl)) \<le> max 1 (MaxClusterSize c))"
  using assms
proof (induction items arbitrary: clusters)
  case Nil
  then show ?case by simp
next
  case (Cons item items)
  from place_inv [OF Cons.prems, of uuid item]
  have m: "mset (concat (map Items (place c uuid item clusters))) =
      add_mset item (mset (concat (map Items clusters)))"
    and b: "\<forall>cl\<in>set (place c uuid item clusters).
       Items cl \<noteq> [] \<and> int (length (Items cl)) \<le> max 1 (MaxClusterSize c)"
    by simp_all
  from Cons.IH [OF b] show ?case
    by (simp add: m)
qed

text \<open>
  C2, as the code has it. \<^verbatim>\<open>BuildClusters\<close> of the heuristic clusterer never fails, and
  its clusters partition the input: taken together, the items of the clusters are the
  input items, each as often as it is in the input. No cluster is empty, and none has
  more than \<open>max 1 MaxClusterSize\<close> items: a new cluster takes its first item whatever the
  bound, and a cluster grows only while it has fewer than \<^verbatim>\<open>MaxClusterSize\<close> items. So the
  bound is \<^verbatim>\<open>MaxClusterSize\<close> whenever that is at least 1.
\<close>

theorem heuristic_clusters_partition:
  "\<exists>clusters. HeuristicClusterer_BuildClusters c uuid items = Inr clusters \<and>
     mset (concat (map Items clusters)) = mset items \<and>
     (\<forall>cl\<in>set clusters. Items cl \<noteq> [] \<and> int (length (Items cl)) \<le> max 1 (MaxClusterSize c)) \<and>
     (1 \<le> MaxClusterSize c \<longrightarrow> (\<forall>cl\<in>set clusters. int (length (Items cl)) \<le> MaxClusterSize c))"
proof (cases "items = []")
  case True
  then show ?thesis by (simp add: HeuristicClusterer_BuildClusters_def)
next
  case False
  have "\<forall>cl\<in>set []. Items cl \<noteq> [] \<and> int (length (Items cl)) \<le> max 1 (MaxClusterSize c)"
    by simp
  from fold_place_inv [OF this, of uuid "sortByPublished items"]
  have "mset (concat (map Items (fold (place c uuid) (sortByPublished items) []))) = mset items"
    and "\<forall>cl\<in>set (fold (place c uuid) (sortByPublished items) []).
       Items cl \<noteq> [] \<and> int (length (Items cl)) \<le> max 1 (MaxClusterSize c)"
    by (simp_all add: sortByPublished_def mset_sortSlice)
  then show ?thesis
    using False by (auto simp: HeuristicClusterer_BuildClusters_def)
qed

text \<open>
  With the default configuration the two items that share the ticker \<open>CMA\<close> form one
  cluster and the third item another.
\<close>

theorem heuristic_clusters_partition_witness:
  "map (\<lambda>cl. map ID (Items cl))
     (projr (HeuristicClusterer_BuildClusters (NewHeuristicClusterer (6 * Hour) 0.45)
        (\<lambda>k. ''id'') [exLate, exRumour, exEarly])) = [[''n2'', ''n1''], [''n3'']] \<and>
   mset (concat (map Items
     (projr (HeuristicClusterer_BuildClusters (NewHeuristicClusterer (6 * Hour) 0.45)
        (\<lambda>k. ''id'') [exLate, exRumour, exEarly])))) = mset [exLate, exRumour, exEarly] \<and>
   1 \<le> MaxClusterSize (NewHeuristicClusterer (6 * Hour) 0.45)"
proof -
  have "map (\<lambda>cl. map ID (Items cl))
     (projr (HeuristicClusterer_BuildClusters (NewHeuristicClusterer (6 * Hour) 0.45)
        (\<lambda>k. ''id'') [exLate, exRumour, exEarly])) = [[''n2'', ''n1''], [''n3'']]"
    by code_simp
  moreover have "1 \<le> MaxClusterSize (NewHeuristicClusterer (6 * Hour) 0.45)"
    by (simp add: NewHeuristicClusterer_def)
  ultimately show ?thesis
    using heuristic_clusters_partition [of "NewHeuristicClusterer (6 * Hour) 0.45"
        "\<lambda>k. ''id''" "[exLate, exRumour, exEarly]"]
    by auto
qed

text \<open>With \<^verbatim>\<open>MaxClusterSize\<close> 0 the cluster of a single item has more items than the bound.\<close>

theorem max_cluster_size_counterexample:
  "map (\<lambda>cl. int (length (Items cl)))
     (projr (HeuristicClusterer_BuildClusters
        \<lparr>TimeWindow = 6 * Hour, SimilarityThreshold = 0.45, MaxClusterSize = 0\<rparr>
        (\<lambda>k. ''id'') [exEarly])) = [1] \<and>
   MaxClusterSize \<lparr>TimeWindow = 6 * Hour, SimilarityThreshold = 0.45, MaxClusterSize = 0\<rparr> = 0"
  by code_simp

section \<open>Fallback of the LLM clusterer\<close>

lemma LLM_after_chat:
  assumes "items \<noteq> []" and "Client c = Some client" and "Model c \<noteq> []"
    and "buildPrompt json (sortByPublished (limitItems c items)) = Inr payload"
    and "client (chatRequest c payload) w = (resp, w')"
  shows "LLMClusterer_BuildClusters json c items w =
    (case resp of
       Inl err \<Rightarrow> (buildWithFallback c items err, w')
     | Inr choices \<Rightarrow>
         if length choices = 0 then (buildWithFallback c items MissingChoices, w')
         else
           (case parseResponse json (hd choices) items of
              Inl err \<Rightarrow> (buildWithFallback c items err, w')
            | Inr clusters \<Rightarrow>
                if length clusters = 0 then (buildWithFallback c items ReturnedNoClusters, w')
                else (Inr clusters, w')))"
  using assms by (simp add: LLMClusterer_BuildClusters_def Let_def split: sum.splits)

text \<open>
  C5, as the code has it. When the LLM path fails after the request was sent (the chat
  client returns an error, the response has no choice, the first choice has no JSON
  that parses, or it gives no cluster), \<^verbatim>\<open>BuildClusters\<close> returns what the fallback engine
  returns for the whole input when a fallback is configured and succeeds; when the
  fallback fails, the error wraps the fallback's error and the cause; and when no
  fallback is configured, the cause itself is returned as the error.
\<close>

theorem llm_failure_falls_back:
  assumes "items \<noteq> []" and "Client c = Some client" and "Model c \<noteq> []"
    and "buildPrompt json (sortByPublished (limitItems c items)) = Inr payload"
    and "client (chatRequest c payload) w = (resp, w')"
    and "llmFailed json items resp"
  shows "LLMClusterer_BuildClusters json c items w =
    ((case Fallback c of
        None \<Rightarrow> Inl (llmCause json items resp)
      | Some fallback \<Rightarrow>
          (case fallback items of
             Inr clusters \<Rightarrow> Inr clusters
           | Inl fbErr \<Rightarrow> Inl (FallbackFailed fbErr (llmCause json items resp)))), w')"
proof -
  have "LLMClusterer_BuildClusters json c items w =
      (buildWithFallback c items (llmCause json items resp), w')"
    using assms(6) unfolding LLM_after_chat [OF assms(1-5)]
    by (cases resp) (auto simp: llmFailed_def llmCause_def neq_Nil_conv split: sum.splits list.splits)
  then show ?thesis
    by (simp add: buildWithFallback_def split: option.splits sum.splits)
qed

theorem llm_failure_falls_back_witness:
  "[exEarly] \<noteq> [] \<and> Client exLLM = Some exFailingClient \<and> Model exLLM \<noteq> [] \<and>
   exFailingClient (chatRequest exLLM
      [\<lparr>Role = ''system'', Content = systemContent\<rparr>,
       \<lparr>Role = ''user'', Content = userInstructions @ ''[]''\<rparr>]) () = (Inl (Foreign ''boom''), ()) \<and>
   llmFailed exJSON [exEarly] (Inl (Foreign ''boom'')) \<and>
   LLMClusterer_BuildClusters exJSON exLLM [exEarly] () = (exFallback [exEarly], ()) \<and>
   map (\<lambda>cl. map ID (Items cl)) (projr (exFallback [exEarly])) = [[''n2'']]"
proof -
  have 1: "[exEarly] \<noteq> []" by simp
  have 2: "Client exLLM = Some exFailingClient" by (simp add: exLLM_def)
  have 3: "Model exLLM \<noteq> []" by (simp add: exLLM_def)
  have 4: "buildPrompt exJSON (sortByPublished (limitItems exLLM [exEarly])) =
      Inr [\<lparr>Role = ''system'', Content = systemContent\<rparr>,
           \<lparr>Role = ''user'', Content = userInstructions @ ''[]''\<rparr>]"
    by (simp add: buildPrompt_def exJSON_def)
  have 5: "exFailingClient (chatRequest exLLM
      [\<lparr>Role = ''system'', Content = systemContent\<rparr>,
       \<lparr>Role = ''user'', Content = userInstructions @ ''[]''\<rparr>]) () = (Inl (Foreign ''boom''), ())"
    by (simp add: exFailingClient_def)
  have 6: "llmFailed exJSON [exEarly] (Inl (Foreign ''boom''))"
    by (simp add: llmFailed_def)
  have f: "Fallback exLLM = Some exFallback" by (simp add: exLLM_def)
  have v: "map (\<lambda>cl. map ID (Items cl)) (projr (exFallback [exEarly])) = [[''n2'']]"
    by code_simp
  have r: "\<not> isl (exFallback [exEarly])"
    by (simp add: exFallback_def HeuristicClusterer_BuildClusters_def)
  have "LLMClusterer_BuildClusters exJSON exLLM [exEarly] () = (exFallback [exEarly], ())"
    using llm_failure_falls_back [OF 1 2 3 4 5 6] f r
    by (cases "exFallback [exEarly]") simp_all
  then show ?thesis
    using 1 2 3 5 6 v by blast
qed

text \<open>
  Without a fallback engine the error of the chat client reaches the caller, though no
  fallback has failed.
\<close>

theorem no_fallback_counterexample:
  "Fallback (exLLM\<lparr>Fallback := None\<rparr>) = None \<and>
   LLMClusterer_BuildClusters exJSON (exLLM\<lparr>Fallback := None\<rparr>) [exEarly] () =
     (Inl (Foreign ''boom''), ())"
  by code_simp

section \<open>The primary of a parsed cluster\<close>

text \<open>
  What \<^verbatim>\<open>parseResponse\<close> makes the primary of a cluster it keeps: the item of the declared
  primary identifier when that is not empty and known, and otherwise the first known
  item in the order of the response; its empty summary is filled with the English
  summary of the response.
\<close>

lemma parseCluster_Primary:
  assumes "parseCluster itemByID d = Some cl"
  shows "\<exists>first rest. List.map_filter itemByID (NewsIDs d) = first # rest \<and>
    Items cl = sortByPublished (first # rest) \<and>
    (\<exists>p. p = (if PrimaryNewsID d \<noteq> []
              then (case itemByID (PrimaryNewsID d) of Some candidate \<Rightarrow> candidate | None \<Rightarrow> first)
              else first) \<and>
         Primary cl = (if dSummaryEN d \<noteq> [] \<and> Summary p = [] then p\<lparr>Summary := dSummaryEN d\<rparr>
                       else p))"
proof (cases "List.map_filter itemByID (NewsIDs d)")
  case Nil
  then show ?thesis using assms by (simp add: parseCluster_def)
next
  case (Cons first rest)
  then show ?thesis
    using assms by (auto simp: parseCluster_def Let_def)
qed

text \<open>
  C6 on the input where it fails. The response lists the later item \<open>n1\<close> before the
  earlier item \<open>n2\<close> and declares no primary: the primary of the parsed cluster is \<open>n1\<close>,
  the first item listed, and not \<open>n2\<close>, the earliest member, with which the sorted items
  of the cluster start.
\<close>

theorem parse_primary_first_listed:
  "PublishedAt exEarly < PublishedAt exLate \<and>
   map (\<lambda>cl. (ID (Primary cl), map ID (Items cl)))
     (projr (parseResponse exJSON ''{}'' [exLate, exEarly])) = [(''n1'', [''n2'', ''n1''])]"
  by code_simp

section \<open>Calls of the chat client\<close>

text \<open>
  A call of \<^verbatim>\<open>BuildClusters\<close> that gets as far as the request calls the client once,
  whatever it was asked before: the clusterer of the source keeps nothing from one call
  to the next.
\<close>

lemma BuildClusters_counts_each_call:
  assumes "items \<noteq> []" and "Client c = Some (counted client)" and "Model c \<noteq> []"
    and "buildPrompt json (sortByPublished (limitItems c items)) = Inr payload"
  shows "fst (snd (LLMClusterer_BuildClusters json c items (n, w))) = Suc n"
proof -
  obtain r w' where r: "client (chatRequest c payload) w = (r, w')"
    by (cases "client (chatRequest c payload) w") auto
  then have "counted client (chatRequest c payload) (n, w) = (r, (Suc n, w'))"
    by (simp add: counted_def)
  from LLM_after_chat [OF assms this] show ?thesis
    by (simp split: sum.splits)
qed

text \<open>
  C3 on the input where it fails, the scenario of \<^verbatim>\<open>TestLLMClustererCachesBySignature\<close>:
  two items, a client that answers with one cluster, and two calls of \<^verbatim>\<open>BuildClusters\<close>
  one after the other with the same items and the same model. Both calls return the
  clusters of the response, and each calls the client: after the first the client has
  been called once, after the second twice. There is no cache that could serve the
  second call.
\<close>

theorem second_call_calls_upstream_again:
  "\<not> isl (fst (LLMClusterer_BuildClusters exJSON exCounting [exLate, exEarly] (0, ()))) \<and>
   snd (LLMClusterer_BuildClusters exJSON exCounting [exLate, exEarly] (0, ())) = (1, ()) \<and>
   fst (LLMClusterer_BuildClusters exJSON exCounting [exLate, exEarly] (1, ())) =
     fst (LLMClusterer_BuildClusters exJSON exCounting [exLate, exEarly] (0, ())) \<and>
   snd (LLMClusterer_BuildClusters exJSON exCounting [exLate, exEarly] (1, ())) = (2, ())"
  by code_simp

end
